theory Spec2Isabelle
  imports Main "HOL-Library.Word" "HOL-Library.Signed_Division"
begin

unbundle bit_operations_syntax

section \<open>Scores, depths and the constants of types.h\<close>

text \<open>
  \<open>Value\<close> and \<open>Depth\<close> are enums over \<open>int\<close> in the engine. The assertions of
  \<open>search\<close> and \<open>qsearch\<close> keep every score between \<open>-VALUE_INFINITE\<close> and
  \<open>VALUE_INFINITE\<close>, and a ply is at most \<open>PLY_MAX + 2\<close>, far from the limits of
  \<open>int\<close>, where C++ leaves signed overflow undefined; so scores, depths and plies are
  modelled as mathematical integers. A move is a number; \<open>MOVE_NONE\<close> is the one that
  tests false (\<open>excludedMove ? ... : ...\<close>, \<open>!threatMove\<close>), that is 0.

  The header types.h is not among the sources: the constants it declares are the fields
  of a record that every function of the model takes as its first argument, so that the
  theorems hold for whatever values the header gives them. Divisions are C++'s, which
  truncate towards zero (\<open>sdiv\<close>).
\<close>

type_synonym Value = int
type_synonym Depth = int
type_synonym Move = nat
type_synonym ValueType = nat
type_synonym Key = nat

record params =
  ONE_PLY :: Depth
  DEPTH_ZERO :: Depth
  DEPTH_NONE :: Depth
  DEPTH_QS_CHECKS :: Depth
  DEPTH_QS_NO_CHECKS :: Depth
  PLY_MAX :: int
  VALUE_ZERO :: Value
  VALUE_DRAW :: Value
  VALUE_KNOWN_WIN :: Value
  VALUE_MATE :: Value
  VALUE_INFINITE :: Value
  VALUE_NONE :: Value
  VALUE_MATE_IN_PLY_MAX :: Value
  VALUE_MATED_IN_PLY_MAX :: Value
  PawnValueMidgame :: Value
  RookValueMidgame :: Value
  VALUE_TYPE_NONE :: ValueType
  VALUE_TYPE_UPPER :: ValueType
  VALUE_TYPE_LOWER :: ValueType
  VALUE_TYPE_EXACT :: ValueType
  MOVE_NULL :: Move

definition MOVE_NONE :: Move where
  "MOVE_NONE = 0"

text \<open>A transposition table entry, read through its accessors.\<close>

record TTEntry =
  tte_move :: Move
  tte_value :: Value
  tte_type :: ValueType
  tte_depth :: Depth
  tte_static_value :: Value
  tte_static_value_margin :: Value

section \<open>Mate scores in the transposition table\<close>

definition value_to_tt :: "params \<Rightarrow> Value \<Rightarrow> int \<Rightarrow> Value" where
  "value_to_tt c v ply =
     (if v \<ge> VALUE_MATE_IN_PLY_MAX c then v + ply
      else if v \<le> VALUE_MATED_IN_PLY_MAX c then v - ply
      else v)"

definition value_from_tt :: "params \<Rightarrow> Value \<Rightarrow> int \<Rightarrow> Value" where
  "value_from_tt c v ply =
     (if v \<ge> VALUE_MATE_IN_PLY_MAX c then v - ply
      else if v \<le> VALUE_MATED_IN_PLY_MAX c then v + ply
      else v)"

text \<open>
  \<open>tte->type() & VALUE_TYPE_LOWER\<close> in a condition: the bitwise and, tested against zero.
\<close>

definition type_and :: "ValueType \<Rightarrow> ValueType \<Rightarrow> bool" where
  "type_and t m = (t AND m \<noteq> 0)"

definition can_return_tt :: "params \<Rightarrow> TTEntry \<Rightarrow> Depth \<Rightarrow> Value \<Rightarrow> int \<Rightarrow> bool" where
  "can_return_tt c tte depth beta ply =
     (let v = value_from_tt c (tte_value tte) ply
      in (tte_depth tte \<ge> depth
          \<or> v \<ge> max (VALUE_MATE_IN_PLY_MAX c) beta
          \<or> v < min (VALUE_MATED_IN_PLY_MAX c) beta)
         \<and> ((type_and (tte_type tte) (VALUE_TYPE_LOWER c) \<and> v \<ge> beta)
            \<or> (type_and (tte_type tte) (VALUE_TYPE_UPPER c) \<and> v < beta)))"

definition refine_eval :: "params \<Rightarrow> TTEntry \<Rightarrow> Value \<Rightarrow> int \<Rightarrow> Value" where
  "refine_eval c tte defaultEval ply =
     (let v = value_from_tt c (tte_value tte) ply
      in if (type_and (tte_type tte) (VALUE_TYPE_LOWER c) \<and> v \<ge> defaultEval)
            \<or> (type_and (tte_type tte) (VALUE_TYPE_UPPER c) \<and> v < defaultEval)
         then v else defaultEval)"

text \<open>
  The specification's wording of the same test: an entry is usable for a cut-off at depth
  \<open>d\<close>, beta \<open>b\<close> and ply \<open>p\<close> when it is deep enough or its score is a mate score beyond
  \<open>b\<close>, and its bound points the right way.
\<close>

definition has_LOWER :: "params \<Rightarrow> TTEntry \<Rightarrow> bool" where
  "has_LOWER c e = (tte_type e AND VALUE_TYPE_LOWER c \<noteq> 0)"

definition has_UPPER :: "params \<Rightarrow> TTEntry \<Rightarrow> bool" where
  "has_UPPER c e = (tte_type e AND VALUE_TYPE_UPPER c \<noteq> 0)"

definition usable_for_cutoff :: "params \<Rightarrow> TTEntry \<Rightarrow> Depth \<Rightarrow> Value \<Rightarrow> int \<Rightarrow> bool" where
  "usable_for_cutoff c e d b p =
     ((tte_depth e \<ge> d
       \<or> value_from_tt c (tte_value e) p \<ge> max (VALUE_MATE_IN_PLY_MAX c) b
       \<or> value_from_tt c (tte_value e) p < min (VALUE_MATED_IN_PLY_MAX c) b)
      \<and> ((has_LOWER c e \<and> value_from_tt c (tte_value e) p \<ge> b)
         \<or> (has_UPPER c e \<and> value_from_tt c (tte_value e) p < b)))"

section \<open>The aspiration window of the iterative deepening loop\<close>

text \<open>
  The first statement of the MultiPV loop body of \<open>id_loop\<close>: from the iteration number
  \<open>depth\<close>, the previous score of the root move, the array \<open>bestValues\<close> and the
  current \<open>aspirationDelta\<close> it gives the new \<open>aspirationDelta\<close>, \<open>alpha\<close> and \<open>beta\<close>.
  The divisions are C++'s, truncating towards zero (\<open>sdiv\<close>).
\<close>

definition aspiration_window ::
  "params \<Rightarrow> int \<Rightarrow> Value \<Rightarrow> (int \<Rightarrow> Value) \<Rightarrow> int \<Rightarrow> int \<times> Value \<times> Value" where
  "aspiration_window c depth prevScore bestValues aspirationDelta =
     (if depth \<ge> 5 \<and> \<bar>prevScore\<bar> < VALUE_KNOWN_WIN c then
        let prevDelta1 = bestValues (depth - 1) - bestValues (depth - 2);
            prevDelta2 = bestValues (depth - 2) - bestValues (depth - 3);
            aspirationDelta1 = min (max (\<bar>prevDelta1\<bar> + \<bar>prevDelta2\<bar> sdiv 2) 16) 24;
            aspirationDelta2 = (aspirationDelta1 + 7) sdiv 8 * 8;
            alpha = max (prevScore - aspirationDelta2) (- VALUE_INFINITE c);
            beta = min (prevScore + aspirationDelta2) (VALUE_INFINITE c)
        in (aspirationDelta2, alpha, beta)
      else (aspirationDelta, - VALUE_INFINITE c, VALUE_INFINITE c))"

section \<open>The polling interval set by think\<close>

record SearchLimits =
  lim_time :: int
  lim_increment :: int
  lim_movesToGo :: int
  lim_maxTime :: int
  lim_maxDepth :: int
  lim_maxNodes :: int
  lim_infinite :: bool
  lim_ponder :: bool

text \<open>The value \<open>think\<close> gives \<open>NodesBetweenPolls\<close>, from the limits of the search.\<close>

definition think_NodesBetweenPolls :: "SearchLimits \<Rightarrow> int" where
  "think_NodesBetweenPolls Limits =
     (if lim_maxNodes Limits \<noteq> 0 then min (lim_maxNodes Limits) 30000
      else if lim_time Limits \<noteq> 0 \<and> lim_time Limits < 1000 then 1000
      else if lim_time Limits \<noteq> 0 \<and> lim_time Limits < 5000 then 5000
      else 30000)"

section \<open>A sample of the constants\<close>

text \<open>
  An instance of the constants for evaluating the model at concrete inputs:
  \<open>ONE_PLY\<close> is 2, as the comment in \<open>init_search\<close> says, and the others stand in the
  order the code relies on.
\<close>

definition sample_params :: params where
  "sample_params =
     \<lparr> ONE_PLY = 2, DEPTH_ZERO = 0, DEPTH_NONE = -254, DEPTH_QS_CHECKS = -2,
       DEPTH_QS_NO_CHECKS = -4, PLY_MAX = 100, VALUE_ZERO = 0, VALUE_DRAW = 0, VALUE_KNOWN_WIN = 15000,
       VALUE_MATE = 30000, VALUE_INFINITE = 30001, VALUE_NONE = 30002,
       VALUE_MATE_IN_PLY_MAX = 29900, VALUE_MATED_IN_PLY_MAX = -29900,
       PawnValueMidgame = 198, RookValueMidgame = 1270,
       VALUE_TYPE_NONE = 0, VALUE_TYPE_UPPER = 1, VALUE_TYPE_LOWER = 2, VALUE_TYPE_EXACT = 3,
       MOVE_NULL = 65 \<rparr>"

section \<open>The position command of the UCI front end\<close>

text \<open>
  \<open>set_position\<close> reads its stream with \<open>is >> token\<close>: the stream is the list of the
  tokens still to be read, and a read from an empty stream fails and leaves \<open>token\<close> as it
  was. The position class and \<open>move_from_uci\<close> are not among the sources; they are taken
  from the environment: \<open>from_fen\<close>, \<open>move_from_uci\<close> (which gives \<open>MOVE_NONE\<close> for a
  token that is not a legal move of the position) and \<open>do_move\<close> with the slot of
  \<open>StateRingBuf\<close> it writes to.
\<close>

definition StarFEN :: string where
  "StarFEN = ''rnbqkbnr/pppppppp/8/8/8/8/PPPPPPPP/RNBQKBNR w KQkq - 0 1''"

record 'p uci_env =
  from_fen :: "'p \<Rightarrow> string \<Rightarrow> bool \<Rightarrow> 'p"
  move_from_uci :: "'p \<Rightarrow> string \<Rightarrow> Move"
  setup_do_move :: "'p \<Rightarrow> Move \<Rightarrow> nat \<Rightarrow> 'p"
  UCI_Chess960 :: bool

record 'p uci_state =
  root_pos :: 'p
  SetupState :: nat

fun read_fen :: "string list \<Rightarrow> string \<Rightarrow> string \<times> string list" where
  "read_fen [] fen = (fen, [])"
| "read_fen (token # is) fen =
     (if token \<noteq> ''moves'' then read_fen is (fen @ token @ '' '') else (fen, is))"

fun parse_moves :: "'p uci_env \<Rightarrow> 'p uci_state \<Rightarrow> string list \<Rightarrow> 'p uci_state" where
  "parse_moves U s [] = s"
| "parse_moves U s (token # is) =
     (let m = move_from_uci U (root_pos s) token
      in if m \<noteq> MOVE_NONE
         then parse_moves U
                (s\<lparr> root_pos := setup_do_move U (root_pos s) m (SetupState s),
                    SetupState := (if SetupState s + 1 \<ge> 102 then 0 else SetupState s + 1) \<rparr>)
                is
         else s)"

definition set_position :: "'p uci_env \<Rightarrow> 'p uci_state \<Rightarrow> string list \<Rightarrow> 'p uci_state" where
  "set_position U s is =
     (let token = (case is of [] \<Rightarrow> '''' | t # _ \<Rightarrow> t);
          is1 = tl is
      in if token = ''startpos''
         then parse_moves U
                (s\<lparr> root_pos := from_fen U (root_pos s) StarFEN (UCI_Chess960 U) \<rparr>) (tl is1)
         else if token = ''fen''
         then (case read_fen is1 [] of (fen, is2) \<Rightarrow>
                 parse_moves U (s\<lparr> root_pos := from_fen U (root_pos s) fen (UCI_Chess960 U) \<rparr>) is2)
         else s)"

text \<open>A small position for evaluation: the FEN string it was set from and the moves played.\<close>

definition toy_uci :: "(string \<times> Move list) uci_env" where
  "toy_uci =
     \<lparr> from_fen = (\<lambda>p fen chess960. (fen, [])),
       move_from_uci = (\<lambda>p t. if t = ''e2e4'' then 1 else if t = ''e7e5'' then 2 else 0),
       setup_do_move = (\<lambda>p m i. (fst p, snd p @ [m])),
       UCI_Chess960 = False \<rparr>"

section \<open>The search: its stack, its state and what it takes from the other modules\<close>

type_synonym Square = nat
type_synonym Piece = nat
type_synonym PieceType = nat
type_synonym Color = nat
type_synonym Bitboard = "64 word"

datatype NodeType = Root | PV | NonPV | SplitPointRoot | SplitPointPV | SplitPointNonPV

definition PvNode :: "NodeType \<Rightarrow> bool" where
  "PvNode NT = (NT = PV \<or> NT = Root \<or> NT = SplitPointPV \<or> NT = SplitPointRoot)"

definition SpNode :: "NodeType \<Rightarrow> bool" where
  "SpNode NT = (NT = SplitPointPV \<or> NT = SplitPointNonPV \<or> NT = SplitPointRoot)"

definition RootNode :: "NodeType \<Rightarrow> bool" where
  "RootNode NT = (NT = Root \<or> NT = SplitPointRoot)"

text \<open>
  One frame of the search stack. The back-pointer \<open>sp\<close> is read at split points only and
  is left out.
\<close>

record SearchStack =
  ss_ply :: int
  ss_currentMove :: Move
  ss_bestMove :: Move
  ss_killers0 :: Move
  ss_killers1 :: Move
  ss_eval :: Value
  ss_evalMargin :: Value
  ss_skipNullMove :: bool
  ss_reduction :: Depth
  ss_excludedMove :: Move

text \<open>
  The state a search call works on. \<open>world\<close> is all that lives in the other modules: the
  position, the transposition table, the history table, the root move list and the thread
  pool. \<open>stack\<close> is the array of frames, a pointer \<open>ss\<close> into it being an index, and
  \<open>maxPly\<close> is the counter of the searching thread.
\<close>

record 'w sstate =
  world :: 'w
  stack :: "int \<Rightarrow> SearchStack"
  StopRequest :: bool
  NodesSincePoll :: int
  NodesBetweenPolls :: int
  maxPly :: int

definition upd_ss :: "'w sstate \<Rightarrow> int \<Rightarrow> (SearchStack \<Rightarrow> SearchStack) \<Rightarrow> 'w sstate" where
  "upd_ss s i f = s\<lparr> stack := (stack s)(i := f (stack s i)) \<rparr>"

definition upd_world :: "'w sstate \<Rightarrow> ('w \<Rightarrow> 'w) \<Rightarrow> 'w sstate" where
  "upd_world s f = s\<lparr> world := f (world s) \<rparr>"

text \<open>
  The locals of \<open>search\<close> that live across its steps, and what the move loop leaves
  for the steps after it.
\<close>

record search_locals =
  sl_alpha :: Value
  sl_beta :: Value
  sl_depth :: Depth
  sl_oldAlpha :: Value
  sl_inCheck :: bool
  sl_excludedMove :: Move
  sl_posKey :: Key
  sl_tte :: "TTEntry option"
  sl_ttMove :: Move
  sl_refinedValue :: Value
  sl_threatMove :: Move

record 'w loop_result =
  lr_moveCount :: int
  lr_bestValue :: Value
  lr_movesSearched :: "Move list"
  lr_playedMoveCount :: int
  lr_state :: "'w sstate"

text \<open>
  The environment: every function and table of position.h, move.h, types.h, bitboard.h,
  evaluate.h, tt.h, history.h, movepick.h and thread.h that the modelled code calls, none
  of which is among the sources. A query on the position takes the world, a call that
  changes something returns the new world. The \<open>CheckInfo\<close> and the pinned pieces are
  functions of the position, so \<open>move_gives_check\<close> and \<open>pl_move_is_legal\<close> take the
  position only. A move picker is the list of the moves it hands out before
  \<open>MOVE_NONE\<close>. \<open>evaluate\<close> returns the value and the margin it writes through its
  reference argument.

  The recursive calls of \<open>search\<close> and \<open>qsearch\<close> go through \<open>search_rec\<close> and
  \<open>qsearch_rec\<close>, so that every statement below holds for whatever the searches of the
  children return. \<open>poll\<close> reads the clock and the input. \<open>move_loop\<close> stands for
  steps 11 to 19 of \<open>search\<close>, the loop over the moves with its split points, and
  \<open>search_split_point\<close> for a \<open>search\<close> entered at a split point.
\<close>

record 'w env =
  in_check :: "'w \<Rightarrow> bool"
  side_to_move :: "'w \<Rightarrow> Color"
  king_square :: "'w \<Rightarrow> Color \<Rightarrow> Square"
  piece_on :: "'w \<Rightarrow> Square \<Rightarrow> Piece"
  occupied_squares :: "'w \<Rightarrow> Bitboard"
  pieces :: "'w \<Rightarrow> Color \<Rightarrow> Bitboard"
  attacks_from_KING :: "'w \<Rightarrow> Square \<Rightarrow> Bitboard"
  attacks_from :: "'w \<Rightarrow> Piece \<Rightarrow> Square \<Rightarrow> Bitboard"
  attacks_from_occ :: "'w \<Rightarrow> Piece \<Rightarrow> Square \<Rightarrow> Bitboard \<Rightarrow> Bitboard"
  see :: "'w \<Rightarrow> Move \<Rightarrow> int"
  see_sign :: "'w \<Rightarrow> Move \<Rightarrow> int"
  is_draw_false :: "'w \<Rightarrow> bool"
  is_draw_true :: "'w \<Rightarrow> bool"
  get_key :: "'w \<Rightarrow> Key"
  get_exclusion_key :: "'w \<Rightarrow> Key"
  non_pawn_material :: "'w \<Rightarrow> Color \<Rightarrow> Value"
  has_pawn_on_7th :: "'w \<Rightarrow> Color \<Rightarrow> bool"
  captured_piece_type :: "'w \<Rightarrow> PieceType"
  move_gives_check :: "'w \<Rightarrow> Move \<Rightarrow> bool"
  is_capture :: "'w \<Rightarrow> Move \<Rightarrow> bool"
  is_capture_or_promotion :: "'w \<Rightarrow> Move \<Rightarrow> bool"
  is_passed_pawn_push :: "'w \<Rightarrow> Move \<Rightarrow> bool"
  can_castle :: "'w \<Rightarrow> Color \<Rightarrow> bool"
  pl_move_is_legal :: "'w \<Rightarrow> Move \<Rightarrow> bool"
  do_move :: "'w \<Rightarrow> Move \<Rightarrow> bool \<Rightarrow> 'w"
  undo_move :: "'w \<Rightarrow> Move \<Rightarrow> 'w"
  do_null_move_true :: "'w \<Rightarrow> 'w"
  do_null_move_false :: "'w \<Rightarrow> 'w"
  pos_thread :: "'w \<Rightarrow> int"
  move_from :: "Move \<Rightarrow> Square"
  move_to :: "Move \<Rightarrow> Square"
  make_move :: "Square \<Rightarrow> Square \<Rightarrow> Move"
  is_promotion :: "Move \<Rightarrow> bool"
  is_enpassant :: "Move \<Rightarrow> bool"
  is_special :: "Move \<Rightarrow> bool"
  type_of :: "Piece \<Rightarrow> PieceType"
  flip :: "Color \<Rightarrow> Color"
  value_mate_in :: "int \<Rightarrow> Value"
  value_mated_in :: "int \<Rightarrow> Value"
  PieceValueMidgame :: "Piece \<Rightarrow> Value"
  PieceValueEndgame :: "Piece \<Rightarrow> Value"
  PawnValueEndgame :: Value
  QUEEN :: PieceType
  PIECE_TYPE_NONE :: PieceType
  squares_between :: "Square \<Rightarrow> Square \<Rightarrow> Bitboard"
  FutilityMargins :: "int \<Rightarrow> int \<Rightarrow> Value"
  evaluate :: "'w \<Rightarrow> Value \<times> Value"
  TT_probe :: "'w \<Rightarrow> Key \<Rightarrow> TTEntry option"
  TT_store :: "'w \<Rightarrow> Key \<Rightarrow> Value \<Rightarrow> ValueType \<Rightarrow> Depth \<Rightarrow> Move \<Rightarrow> Value \<Rightarrow> Value \<Rightarrow> 'w"
  TT_refresh :: "'w \<Rightarrow> Key \<Rightarrow> 'w"
  H_update :: "'w \<Rightarrow> Piece \<Rightarrow> Square \<Rightarrow> Value \<Rightarrow> 'w"
  H_update_gain :: "'w \<Rightarrow> Piece \<Rightarrow> Square \<Rightarrow> Value \<Rightarrow> 'w"
  MovePicker_qsearch :: "'w \<Rightarrow> Move \<Rightarrow> Depth \<Rightarrow> Square \<Rightarrow> Move list"
  MovePicker_probcut :: "'w \<Rightarrow> Move \<Rightarrow> PieceType \<Rightarrow> Move list"
  cutoff_occurred :: "'w \<Rightarrow> bool"
  Rml_pv0 :: "'w \<Rightarrow> Move"
  poll :: "'w sstate \<Rightarrow> 'w sstate"
  search_rec :: "NodeType \<Rightarrow> 'w sstate \<Rightarrow> int \<Rightarrow> Value \<Rightarrow> Value \<Rightarrow> Depth \<Rightarrow> Value \<times> 'w sstate"
  qsearch_rec :: "NodeType \<Rightarrow> 'w sstate \<Rightarrow> int \<Rightarrow> Value \<Rightarrow> Value \<Rightarrow> Depth \<Rightarrow> Value \<times> 'w sstate"
  move_loop :: "NodeType \<Rightarrow> 'w sstate \<Rightarrow> int \<Rightarrow> search_locals \<Rightarrow> 'w loop_result"
  search_split_point :: "NodeType \<Rightarrow> 'w sstate \<Rightarrow> int \<Rightarrow> Value \<Rightarrow> Value \<Rightarrow> Depth \<Rightarrow> Value \<times> 'w sstate"

section \<open>Constants and small functions of search.cpp\<close>

definition Slidings :: "bool list" where
  "Slidings = [False, False, False, True, True, True, False, False, False,
               False, False, True, True, True, False, False, False, False]"

definition piece_is_slider :: "Piece \<Rightarrow> bool" where
  "piece_is_slider p = (p < 18 \<and> Slidings ! p)"

definition RazorDepth :: "params \<Rightarrow> Depth" where
  "RazorDepth c = 4 * ONE_PLY c"

definition razor_margin :: "Depth \<Rightarrow> Value" where
  "razor_margin d = 0x200 + 0x10 * d"

definition ThreatDepth :: "params \<Rightarrow> Depth" where
  "ThreatDepth c = 5 * ONE_PLY c"

definition IIDDepth :: "params \<Rightarrow> bool \<Rightarrow> Depth" where
  "IIDDepth c pv = (if pv then 5 * ONE_PLY c else 8 * ONE_PLY c)"

definition IIDMargin :: Value where
  "IIDMargin = 0x100"

definition FutilityMarginQS :: Value where
  "FutilityMarginQS = 0x80"

definition futility_margin :: "params \<Rightarrow> 'w env \<Rightarrow> Depth \<Rightarrow> int \<Rightarrow> Value" where
  "futility_margin c E d mn =
     (if d < 7 * ONE_PLY c then FutilityMargins E (max d 1) (min mn 63)
      else 2 * VALUE_INFINITE c)"

text \<open>
  Bitboards are 64-bit words. bitboard.h is not among the sources; its helpers are taken
  by what their names and their use say: \<open>bit_is_set\<close> tests a square, \<open>1ULL << sq\<close>
  is the board of one square, \<open>clear_bit\<close> removes a square and \<open>pop_1st_bit\<close> returns
  the least square of a board that is not empty and removes it.
\<close>

definition bit_is_set :: "Bitboard \<Rightarrow> Square \<Rightarrow> bool" where
  "bit_is_set b sq = bit b sq"

definition square_bb :: "Square \<Rightarrow> Bitboard" where
  "square_bb sq = push_bit sq 1"

definition clear_bit :: "Bitboard \<Rightarrow> Square \<Rightarrow> Bitboard" where
  "clear_bit b sq = unset_bit sq b"

definition pop_1st_bit :: "Bitboard \<Rightarrow> Square \<times> Bitboard" where
  "pop_1st_bit b =
     (case find (bit b) [0..<64] of
        Some sq \<Rightarrow> (sq, unset_bit sq b)
      | None \<Rightarrow> (64, b))"

definition connected_moves :: "'w env \<Rightarrow> 'w \<Rightarrow> Move \<Rightarrow> Move \<Rightarrow> bool" where
  "connected_moves E pos m1 m2 =
     (let f2 = move_from E m2;
          t1 = move_to E m1
      in if f2 = t1 then True
         else
           let t2 = move_to E m2;
               f1 = move_from E m1
           in if t2 = f1 then True
              else
                let p2 = piece_on E pos f2
                in if piece_is_slider p2 \<and> bit_is_set (squares_between E f2 t2) f1 then True
                   else
                     let p1 = piece_on E pos t1
                     in if bit_is_set (attacks_from E pos p1 t1) t2 then True
                        else
                          let ksq = king_square E pos (side_to_move E pos)
                          in if piece_is_slider p1 \<and> bit_is_set (squares_between E t1 ksq) f2
                                \<and> bit_is_set
                                     (attacks_from_occ E pos p1 t1
                                        (clear_bit (occupied_squares E pos) f2)) ksq
                             then True
                             else False)"

text \<open>
  \<open>update_history\<close>: the bonus \<open>depth * depth\<close> for the move that cut off and the
  same malus for the first \<open>moveCount - 1\<close> quiet moves searched before it.
\<close>

definition update_history ::
  "'w env \<Rightarrow> 'w \<Rightarrow> Move \<Rightarrow> Depth \<Rightarrow> Move list \<Rightarrow> int \<Rightarrow> 'w" where
  "update_history E w move depth movesSearched moveCount =
     (let bonus = depth * depth;
          w1 = H_update E w (piece_on E w (move_from E move)) (move_to E move) bonus
      in foldl (\<lambda>w' m. H_update E w' (piece_on E w' (move_from E m)) (move_to E m) (- bonus))
           w1 (take (nat (moveCount - 1)) movesSearched))"

section \<open>check_is_dangerous\<close>

text \<open>
  The loop of rule 3 over the newly attacked pieces. It ends with \<open>None\<close> when the
  function returns true from inside the loop, and with the value of the local \<open>bv\<close>
  when the board is exhausted.
\<close>

function victims_loop ::
  "'w env \<Rightarrow> 'w \<Rightarrow> Square \<Rightarrow> Value \<Rightarrow> Value \<Rightarrow> Bitboard \<Rightarrow> Value \<Rightarrow> Value option" where
  "victims_loop E pos from futilityBase beta b bv =
     (if b \<noteq> 0
      then let victimSq = fst (pop_1st_bit b);
               futilityValue = futilityBase + PieceValueEndgame E (piece_on E pos victimSq)
           in if futilityValue \<ge> beta \<and> see_sign E pos (make_move E from victimSq) \<ge> 0
              then None
              else victims_loop E pos from futilityBase beta (snd (pop_1st_bit b))
                     (if futilityValue > bv then futilityValue else bv)
      else Some bv)"
  by pat_completeness auto
termination
proof (relation "measure (\<lambda>(E, pos, from, futilityBase, beta, b, bv). card {n. bit b n})")
  show "wf (measure (\<lambda>(E :: 'w env, pos :: 'w, from :: Square, futilityBase :: Value,
                        beta :: Value, b :: Bitboard, bv :: Value). card {n. bit b n}))"
    by simp
next
  fix E :: "'w env" and pos :: 'w and frm :: Square and futilityBase beta :: Value
    and b :: Bitboard and bv :: Value and victimSq :: Square and futilityValue :: Value
  assume "b \<noteq> 0"
  then obtain n where n: "bit b n"
    by (auto simp: bit_eq_iff)
  then have "n < 64" using bit_imp_le_length [of b n] by simp
  with n have "\<exists>sq\<in>set [0..<64]. bit b sq" by auto
  then obtain sq where f: "find (bit b) [0..<64] = Some sq"
    by (cases "find (bit b) [0..<64]") (auto simp: find_None_iff)
  then have sq: "bit b sq" by (auto simp: find_Some_iff)
  have "{n. bit (unset_bit sq b) n} = {n. bit b n} - {sq}"
    by (auto simp: bit_unset_bit_iff)
  moreover have "card ({n. bit b n} - {sq}) < card {n. bit b n}"
    using sq by (intro card_Diff1_less) simp_all
  ultimately have "card {n. bit (snd (pop_1st_bit b)) n} < card {n. bit b n}"
    by (simp add: pop_1st_bit_def f)
  then show "((E, pos, frm, futilityBase, beta, snd (pop_1st_bit b),
               if bv < futilityValue then futilityValue else bv),
              E, pos, frm, futilityBase, beta, b, bv)
             \<in> measure (\<lambda>(E, pos, from, futilityBase, beta, b, bv). card {n. bit b n})"
    by simp
qed

declare victims_loop.simps [simp del]

text \<open>
  \<open>check_is_dangerous\<close> returns its result together with the value of \<open>*bestValue\<close>
  after the call.
\<close>

definition check_is_dangerous ::
  "'w env \<Rightarrow> 'w \<Rightarrow> Move \<Rightarrow> Value \<Rightarrow> Value \<Rightarrow> Value \<Rightarrow> bool \<times> Value" where
  "check_is_dangerous E pos move futilityBase beta bestValue =
     (let bv = bestValue;
          from = move_from E move;
          to = move_to E move;
          them = flip E (side_to_move E pos);
          ksq = king_square E pos them;
          kingAtt = attacks_from_KING E pos ksq;
          pc = piece_on E pos from;
          occ = occupied_squares E pos AND NOT (square_bb from) AND NOT (square_bb ksq);
          oldAtt = attacks_from_occ E pos pc from occ;
          newAtt = attacks_from_occ E pos pc to occ;
          b = kingAtt AND NOT (pieces E pos them) AND NOT newAtt AND NOT (square_bb to)
      in if \<not> (b \<noteq> 0 \<and> b AND (b - 1) \<noteq> 0) then (True, bestValue)
         else if type_of E pc = QUEEN E \<and> bit_is_set kingAtt to then (True, bestValue)
         else case victims_loop E pos from futilityBase beta
                     (pieces E pos them AND newAtt AND NOT oldAtt AND NOT (square_bb ksq)) bv of
                None \<Rightarrow> (True, bestValue)
              | Some bv' \<Rightarrow> (False, bv'))"

text \<open>
  The victims of rule 3: the pieces of the opponent, the king apart, that the moved piece
  attacks from its new square and did not attack from the old one.
\<close>

definition new_victims :: "'w env \<Rightarrow> 'w \<Rightarrow> Move \<Rightarrow> Square set" where
  "new_victims E pos move =
     (let from = move_from E move;
          to = move_to E move;
          them = flip E (side_to_move E pos);
          ksq = king_square E pos them;
          pc = piece_on E pos from;
          occ = occupied_squares E pos AND NOT (square_bb from) AND NOT (square_bb ksq)
      in {sq. bit (pieces E pos them) sq
              \<and> bit (attacks_from_occ E pos pc to occ) sq
              \<and> \<not> bit (attacks_from_occ E pos pc from occ) sq
              \<and> sq \<noteq> ksq})"


section \<open>qsearch\<close>

text \<open>
  In \<open>qsearch\<close> a node is a PV node when its type is \<open>PV\<close>; the function is called
  with \<open>PV\<close> and \<open>NonPV\<close> only.
\<close>

definition qPvNode :: "NodeType \<Rightarrow> bool" where
  "qPvNode NT = (NT = PV)"

text \<open>The locals of \<open>qsearch\<close> that the loop over the moves reads and does not change.\<close>

record qs_locals =
  ql_beta :: Value
  ql_depth :: Depth
  ql_inCheck :: bool
  ql_enoughMaterial :: bool
  ql_ttMove :: Move
  ql_futilityBase :: Value

text \<open>
  The end of the loop body: the legality test, the move made, the child searched with
  \<open>depth - ONE_PLY\<close>, the move unmade and the best value updated. The loop carries
  \<open>bestValue\<close>, \<open>alpha\<close> and the state.
\<close>

definition qsearch_do_move ::
  "params \<Rightarrow> 'w env \<Rightarrow> NodeType \<Rightarrow> int \<Rightarrow> qs_locals \<Rightarrow> Move \<Rightarrow> bool
     \<Rightarrow> Value \<times> Value \<times> 'w sstate \<Rightarrow> Value \<times> Value \<times> 'w sstate" where
  "qsearch_do_move c E NT ss L move givesCheck acc =
     (case acc of (bestValue, alpha, s) \<Rightarrow>
        if \<not> pl_move_is_legal E (world s) move then (bestValue, alpha, s)
        else
          let s1 = upd_ss s ss (\<lambda>f. f\<lparr> ss_currentMove := move \<rparr>);
              s2 = upd_world s1 (\<lambda>w. do_move E w move givesCheck);
              r = qsearch_rec E NT s2 (ss + 1) (- ql_beta L) (- alpha) (ql_depth L - ONE_PLY c);
              v = - fst r;
              s3 = upd_world (snd r) (\<lambda>w. undo_move E w move)
          in if v > bestValue
             then (v,
                   (if qPvNode NT \<and> v > alpha \<and> v < ql_beta L then v else alpha),
                   upd_ss s3 ss (\<lambda>f. f\<lparr> ss_bestMove := move \<rparr>))
             else (bestValue, alpha, s3))"

text \<open>The body of the loop for one move; a \<open>continue\<close> is a result without a search.\<close>

definition qsearch_move ::
  "params \<Rightarrow> 'w env \<Rightarrow> NodeType \<Rightarrow> int \<Rightarrow> qs_locals \<Rightarrow> Move
     \<Rightarrow> Value \<times> Value \<times> 'w sstate \<Rightarrow> Value \<times> Value \<times> 'w sstate" where
  "qsearch_move c E NT ss L move acc =
     (case acc of (bestValue, alpha, s) \<Rightarrow>
        let pos = world s;
            beta = ql_beta L;
            inCheck = ql_inCheck L;
            ttMove = ql_ttMove L;
            futilityBase = ql_futilityBase L;
            givesCheck = move_gives_check E pos move;
            futile = (\<not> qPvNode NT \<and> \<not> inCheck \<and> \<not> givesCheck \<and> move \<noteq> ttMove
                      \<and> ql_enoughMaterial L \<and> \<not> is_promotion E move
                      \<and> \<not> is_passed_pawn_push E pos move);
            futilityValue = futilityBase
                            + PieceValueEndgame E (piece_on E pos (move_to E move))
                            + (if is_enpassant E move then PawnValueEndgame E else VALUE_ZERO c)
        in if futile \<and> futilityValue < beta
           then ((if futilityValue > bestValue then futilityValue else bestValue), alpha, s)
           else if futile \<and> futilityBase < beta \<and> ql_depth L < DEPTH_ZERO c \<and> see E pos move \<le> 0
           then (bestValue, alpha, s)
           else
             let evasionPrunable = (\<not> qPvNode NT \<and> inCheck
                                    \<and> bestValue > VALUE_MATED_IN_PLY_MAX c
                                    \<and> \<not> is_capture E pos move
                                    \<and> \<not> can_castle E pos (side_to_move E pos))
             in if \<not> qPvNode NT \<and> (\<not> inCheck \<or> evasionPrunable) \<and> move \<noteq> ttMove
                   \<and> \<not> is_promotion E move \<and> see_sign E pos move < 0
                then (bestValue, alpha, s)
                else if \<not> qPvNode NT \<and> \<not> inCheck \<and> givesCheck \<and> move \<noteq> ttMove
                        \<and> \<not> is_capture_or_promotion E pos move
                        \<and> ss_eval (stack s ss) + PawnValueMidgame c sdiv 4 < beta
                then
                  (case check_is_dangerous E pos move futilityBase beta bestValue of
                     (dangerous, bestValue1) \<Rightarrow>
                       if \<not> dangerous
                       then ((if ss_eval (stack s ss) + PawnValueMidgame c sdiv 4 > bestValue1
                              then ss_eval (stack s ss) + PawnValueMidgame c sdiv 4
                              else bestValue1), alpha, s)
                       else qsearch_do_move c E NT ss L move givesCheck (bestValue1, alpha, s))
                else qsearch_do_move c E NT ss L move givesCheck (bestValue, alpha, s))"

text \<open>
  The loop: it goes on while \<open>bestValue < beta\<close> and the picker has a move.
\<close>

fun qsearch_loop ::
  "params \<Rightarrow> 'w env \<Rightarrow> NodeType \<Rightarrow> int \<Rightarrow> qs_locals \<Rightarrow> Move list
     \<Rightarrow> Value \<times> Value \<times> 'w sstate \<Rightarrow> Value \<times> Value \<times> 'w sstate" where
  "qsearch_loop c E NT ss L [] acc = acc"
| "qsearch_loop c E NT ss L (move # moves) acc =
     (if fst acc < ql_beta L
      then qsearch_loop c E NT ss L moves (qsearch_move c E NT ss L move acc)
      else acc)"

text \<open>After the loop: the mate score of a side in check without a move, or the store.\<close>

definition qsearch_finish ::
  "params \<Rightarrow> 'w env \<Rightarrow> int \<Rightarrow> Value \<Rightarrow> Value \<Rightarrow> bool \<Rightarrow> Depth \<Rightarrow> Value
     \<Rightarrow> Value \<times> Value \<times> 'w sstate \<Rightarrow> Value \<times> 'w sstate" where
  "qsearch_finish c E ss oldAlpha beta inCheck ttDepth evalMargin acc =
     (case acc of (bestValue, alpha, s) \<Rightarrow>
        if inCheck \<and> bestValue = - VALUE_INFINITE c
        then (value_mated_in E (ss_ply (stack s ss)), s)
        else
          let move = (if bestValue \<le> oldAlpha then MOVE_NONE else ss_bestMove (stack s ss));
              vt = (if bestValue \<le> oldAlpha then VALUE_TYPE_UPPER c
                    else if bestValue \<ge> beta then VALUE_TYPE_LOWER c else VALUE_TYPE_EXACT c)
          in (bestValue,
              upd_world s (\<lambda>w. TT_store E w (get_key E w)
                                  (value_to_tt c bestValue (ss_ply (stack s ss))) vt ttDepth move
                                  (ss_eval (stack s ss)) evalMargin)))"

text \<open>
  The static evaluation of \<open>qsearch\<close>, from the entry found in the table (\<open>tte\<close>) or
  from \<open>evaluate\<close>: the value, its margin and the state with \<open>ss->eval\<close> written.
\<close>

definition qsearch_static_eval ::
  "'w env \<Rightarrow> 'w sstate \<Rightarrow> int \<Rightarrow> TTEntry option \<Rightarrow> Value \<times> Value \<times> 'w sstate" where
  "qsearch_static_eval E s ss tte =
     (let r = (case tte of
                 Some e \<Rightarrow> (tte_static_value e, tte_static_value_margin e)
               | None \<Rightarrow> evaluate E (world s))
      in (fst r, snd r, upd_ss s ss (\<lambda>f. f\<lparr> ss_eval := fst r \<rparr>)))"

definition qsearch ::
  "params \<Rightarrow> 'w env \<Rightarrow> NodeType \<Rightarrow> 'w sstate \<Rightarrow> int \<Rightarrow> Value \<Rightarrow> Value \<Rightarrow> Depth
     \<Rightarrow> Value \<times> 'w sstate" where
  "qsearch c E NT s0 ss alpha0 beta depth =
     (let oldAlpha = alpha0;
          s1 = upd_ss s0 ss (\<lambda>f. f\<lparr> ss_bestMove := MOVE_NONE, ss_currentMove := MOVE_NONE \<rparr>);
          s2 = upd_ss s1 ss (\<lambda>f. f\<lparr> ss_ply := ss_ply (stack s1 (ss - 1)) + 1 \<rparr>);
          pos = world s2;
          ply = ss_ply (stack s2 ss)
      in if is_draw_true E pos \<or> ply > PLY_MAX c then (VALUE_DRAW c, s2)
         else
           let inCheck = in_check E pos;
               ttDepth = (if inCheck \<or> depth \<ge> DEPTH_QS_CHECKS c
                          then DEPTH_QS_CHECKS c else DEPTH_QS_NO_CHECKS c);
               tte = TT_probe E pos (get_key E pos);
               ttMove = (case tte of Some e \<Rightarrow> tte_move e | None \<Rightarrow> MOVE_NONE)
           in if \<not> qPvNode NT
                 \<and> (case tte of Some e \<Rightarrow> can_return_tt c e ttDepth beta ply | None \<Rightarrow> False)
              then (value_from_tt c (tte_value (the tte)) ply,
                    upd_ss s2 ss (\<lambda>f. f\<lparr> ss_bestMove := ttMove \<rparr>))
              else if inCheck
              then
                let s3 = upd_ss s2 ss (\<lambda>f. f\<lparr> ss_eval := VALUE_NONE c \<rparr>);
                    L = \<lparr> ql_beta = beta, ql_depth = depth, ql_inCheck = inCheck,
                          ql_enoughMaterial = False, ql_ttMove = ttMove,
                          ql_futilityBase = - VALUE_INFINITE c \<rparr>;
                    moves = MovePicker_qsearch E (world s3) ttMove depth
                              (move_to E (ss_currentMove (stack s3 (ss - 1))))
                in qsearch_finish c E ss oldAlpha beta inCheck ttDepth (VALUE_NONE c)
                     (qsearch_loop c E NT ss L moves (- VALUE_INFINITE c, alpha0, s3))
              else
                (case qsearch_static_eval E s2 ss tte of (bestValue, evalMargin, s3) \<Rightarrow>
                   if bestValue \<ge> beta
                   then (bestValue,
                         (if tte = None
                          then upd_world s3
                                 (\<lambda>w. TT_store E w (get_key E w) (value_to_tt c bestValue ply)
                                         (VALUE_TYPE_LOWER c) (DEPTH_NONE c) MOVE_NONE
                                         (ss_eval (stack s3 ss)) evalMargin)
                          else s3))
                   else
                     let alpha = (if qPvNode NT \<and> bestValue > alpha0 then bestValue else alpha0);
                         L = \<lparr> ql_beta = beta, ql_depth = depth, ql_inCheck = inCheck,
                               ql_enoughMaterial =
                                 (non_pawn_material E pos (side_to_move E pos) > RookValueMidgame c),
                               ql_ttMove = ttMove,
                               ql_futilityBase = ss_eval (stack s3 ss) + evalMargin + FutilityMarginQS \<rparr>;
                         moves = MovePicker_qsearch E (world s3) ttMove depth
                                   (move_to E (ss_currentMove (stack s3 (ss - 1))))
                     in qsearch_finish c E ss oldAlpha beta inCheck ttDepth evalMargin
                          (qsearch_loop c E NT ss L moves (bestValue, alpha, s3))))"

section \<open>search\<close>

text \<open>
  \<open>search\<close> is a sequence of steps, each of which either returns a value or goes on
  to the next one with the locals and the state as it leaves them. \<open>Inl\<close> is a
  \<open>return\<close>, \<open>Inr\<close> the fall through.
\<close>

type_synonym 'w step = "(Value \<times> 'w sstate) + (search_locals \<times> 'w sstate)"

definition next_step :: "'w step \<Rightarrow> (search_locals \<times> 'w sstate \<Rightarrow> 'w step) \<Rightarrow> 'w step" where
  "next_step x f = (case x of Inl r \<Rightarrow> Inl r | Inr a \<Rightarrow> f a)"

text \<open>
  The statements before step 1. The locals that the source leaves unassigned until step 4
  (\<open>excludedMove\<close>, \<open>posKey\<close>, \<open>tte\<close>, \<open>ttMove\<close>) start with a default here.
\<close>

definition search_entry ::
  "params \<Rightarrow> 'w env \<Rightarrow> NodeType \<Rightarrow> 'w sstate \<Rightarrow> int \<Rightarrow> Value \<Rightarrow> Value \<Rightarrow> Depth
     \<Rightarrow> search_locals \<times> 'w sstate" where
  "search_entry c E NT s ss alpha beta depth =
     (let L = \<lparr> sl_alpha = alpha, sl_beta = beta, sl_depth = depth, sl_oldAlpha = alpha,
                sl_inCheck = in_check E (world s), sl_excludedMove = MOVE_NONE,
                sl_posKey = 0, sl_tte = None, sl_ttMove = MOVE_NONE,
                sl_refinedValue = - VALUE_INFINITE c, sl_threatMove = MOVE_NONE \<rparr>;
          s1 = upd_ss s ss (\<lambda>f. f\<lparr> ss_ply := ss_ply (stack s (ss - 1)) + 1 \<rparr>);
          s2 = (if PvNode NT \<and> maxPly s1 < ss_ply (stack s1 ss)
                then s1\<lparr> maxPly := ss_ply (stack s1 ss) \<rparr> else s1)
      in (L, s2))"

definition step1 :: "params \<Rightarrow> 'w env \<Rightarrow> int \<Rightarrow> search_locals \<times> 'w sstate \<Rightarrow> 'w step" where
  "step1 c E ss a =
     (case a of (L, s) \<Rightarrow>
        let s1 = upd_ss s ss (\<lambda>f. f\<lparr> ss_currentMove := MOVE_NONE, ss_bestMove := MOVE_NONE \<rparr>);
            s2 = upd_ss s1 (ss + 1)
                   (\<lambda>f. f\<lparr> ss_excludedMove := MOVE_NONE, ss_skipNullMove := False,
                            ss_reduction := DEPTH_ZERO c \<rparr>);
            s3 = upd_ss s2 (ss + 2) (\<lambda>f. f\<lparr> ss_killers0 := MOVE_NONE, ss_killers1 := MOVE_NONE \<rparr>);
            s4 = (if pos_thread E (world s3) = 0
                  then if NodesSincePoll s3 + 1 > NodesBetweenPolls s3
                       then poll E (s3\<lparr> NodesSincePoll := 0 \<rparr>)
                       else s3\<lparr> NodesSincePoll := NodesSincePoll s3 + 1 \<rparr>
                  else s3)
        in Inr (L\<lparr> sl_threatMove := MOVE_NONE \<rparr>, s4))"

definition step2 ::
  "params \<Rightarrow> 'w env \<Rightarrow> NodeType \<Rightarrow> int \<Rightarrow> search_locals \<times> 'w sstate \<Rightarrow> 'w step" where
  "step2 c E NT ss a =
     (case a of (L, s) \<Rightarrow>
        if (StopRequest s \<or> is_draw_false E (world s) \<or> ss_ply (stack s ss) > PLY_MAX c)
           \<and> \<not> RootNode NT
        then Inl (VALUE_DRAW c, s)
        else Inr (L, s))"

definition step3 ::
  "params \<Rightarrow> 'w env \<Rightarrow> NodeType \<Rightarrow> int \<Rightarrow> search_locals \<times> 'w sstate \<Rightarrow> 'w step" where
  "step3 c E NT ss a =
     (case a of (L, s) \<Rightarrow>
        if \<not> RootNode NT
        then
          let alpha = max (value_mated_in E (ss_ply (stack s ss))) (sl_alpha L);
              beta = min (value_mate_in E (ss_ply (stack s ss) + 1)) (sl_beta L)
          in if alpha \<ge> beta then Inl (alpha, s)
             else Inr (L\<lparr> sl_alpha := alpha, sl_beta := beta \<rparr>, s)
        else Inr (L, s))"

definition step4 ::
  "params \<Rightarrow> 'w env \<Rightarrow> NodeType \<Rightarrow> int \<Rightarrow> search_locals \<times> 'w sstate \<Rightarrow> 'w step" where
  "step4 c E NT ss a =
     (case a of (L, s) \<Rightarrow>
        let pos = world s;
            excludedMove = ss_excludedMove (stack s ss);
            posKey = (if excludedMove \<noteq> MOVE_NONE then get_exclusion_key E pos else get_key E pos);
            tte = TT_probe E pos posKey;
            ttMove = (if RootNode NT then Rml_pv0 E pos
                      else case tte of Some e \<Rightarrow> tte_move e | None \<Rightarrow> MOVE_NONE)
        in if \<not> RootNode NT
              \<and> (case tte of
                    Some e \<Rightarrow>
                      if PvNode NT
                      then tte_depth e \<ge> sl_depth L \<and> tte_type e = VALUE_TYPE_EXACT c
                      else can_return_tt c e (sl_depth L) (sl_beta L) (ss_ply (stack s ss))
                  | None \<Rightarrow> False)
           then
             let s1 = upd_world s (\<lambda>w. TT_refresh E w posKey);
                 s2 = upd_ss s1 ss (\<lambda>f. f\<lparr> ss_bestMove := ttMove \<rparr>);
                 move = ttMove;
                 v = value_from_tt c (tte_value (the tte)) (ss_ply (stack s2 ss));
                 s3 = (if v \<ge> sl_beta L \<and> move \<noteq> MOVE_NONE
                          \<and> \<not> is_capture_or_promotion E (world s2) move
                          \<and> move \<noteq> ss_killers0 (stack s2 ss)
                       then upd_ss s2 ss
                              (\<lambda>f. f\<lparr> ss_killers1 := ss_killers0 f, ss_killers0 := move \<rparr>)
                       else s2)
             in Inl (v, s3)
           else Inr (L\<lparr> sl_excludedMove := excludedMove, sl_posKey := posKey,
                         sl_tte := tte, sl_ttMove := ttMove \<rparr>, s))"

definition step5 ::
  "params \<Rightarrow> 'w env \<Rightarrow> int \<Rightarrow> search_locals \<times> 'w sstate \<Rightarrow> 'w step" where
  "step5 c E ss a =
     (case a of (L, s) \<Rightarrow>
        let r = (if sl_inCheck L
                 then (L, upd_ss s ss (\<lambda>f. f\<lparr> ss_eval := VALUE_NONE c, ss_evalMargin := VALUE_NONE c \<rparr>))
                 else case sl_tte L of
                   Some e \<Rightarrow>
                     (L\<lparr> sl_refinedValue :=
                           refine_eval c e (tte_static_value e) (ss_ply (stack s ss)) \<rparr>,
                      upd_ss s ss (\<lambda>f. f\<lparr> ss_eval := tte_static_value e,
                                             ss_evalMargin := tte_static_value_margin e \<rparr>))
                 | None \<Rightarrow>
                     let ev = evaluate E (world s);
                         s1 = upd_ss s ss (\<lambda>f. f\<lparr> ss_eval := fst ev, ss_evalMargin := snd ev \<rparr>)
                     in (L\<lparr> sl_refinedValue := fst ev \<rparr>,
                         upd_world s1
                           (\<lambda>w. TT_store E w (sl_posKey L) (VALUE_NONE c) (VALUE_TYPE_NONE c)
                                   (DEPTH_NONE c) MOVE_NONE (fst ev) (snd ev))));
            L1 = fst r;
            s2 = snd r;
            move = ss_currentMove (stack s2 (ss - 1));
            s3 = (if move \<noteq> MOVE_NULL c
                     \<and> ss_eval (stack s2 (ss - 1)) \<noteq> VALUE_NONE c
                     \<and> ss_eval (stack s2 ss) \<noteq> VALUE_NONE c
                     \<and> captured_piece_type E (world s2) = PIECE_TYPE_NONE E
                     \<and> \<not> is_special E move
                  then upd_world s2
                         (\<lambda>w. H_update_gain E w (piece_on E w (move_to E move)) (move_to E move)
                                 (- ss_eval (stack s2 (ss - 1)) - ss_eval (stack s2 ss)))
                  else s2)
        in Inr (L1, s3))"

text \<open>Step 6, razoring. The verifying search is \<open>qsearch\<close> itself, at this node.\<close>

definition step6 ::
  "params \<Rightarrow> 'w env \<Rightarrow> NodeType \<Rightarrow> int \<Rightarrow> search_locals \<times> 'w sstate \<Rightarrow> 'w step" where
  "step6 c E NT ss a =
     (case a of (L, s) \<Rightarrow>
        if \<not> PvNode NT
           \<and> sl_depth L < RazorDepth c
           \<and> \<not> sl_inCheck L
           \<and> sl_refinedValue L + razor_margin (sl_depth L) < sl_beta L
           \<and> sl_ttMove L = MOVE_NONE
           \<and> \<bar>sl_beta L\<bar> < VALUE_MATE_IN_PLY_MAX c
           \<and> \<not> has_pawn_on_7th E (world s) (side_to_move E (world s))
        then
          let rbeta = sl_beta L - razor_margin (sl_depth L);
              r = qsearch c E NonPV s ss (rbeta - 1) rbeta (DEPTH_ZERO c)
          in if fst r < rbeta then Inl (fst r, snd r) else Inr (L, snd r)
        else Inr (L, s))"

text \<open>Step 7, static null move pruning.\<close>

definition step7 ::
  "params \<Rightarrow> 'w env \<Rightarrow> NodeType \<Rightarrow> int \<Rightarrow> search_locals \<times> 'w sstate \<Rightarrow> 'w step" where
  "step7 c E NT ss a =
     (case a of (L, s) \<Rightarrow>
        if \<not> PvNode NT
           \<and> \<not> ss_skipNullMove (stack s ss)
           \<and> sl_depth L < RazorDepth c
           \<and> \<not> sl_inCheck L
           \<and> sl_refinedValue L - futility_margin c E (sl_depth L) 0 \<ge> sl_beta L
           \<and> \<bar>sl_beta L\<bar> < VALUE_MATE_IN_PLY_MAX c
           \<and> non_pawn_material E (world s) (side_to_move E (world s)) \<noteq> 0
        then Inl (sl_refinedValue L - futility_margin c E (sl_depth L) 0, s)
        else Inr (L, s))"

text \<open>
  Step 8, the null move search with its verification search. \<open>null_move_R\<close> is the
  reduction \<open>R\<close> and \<open>null_move_guard\<close> the condition of the step.
\<close>

definition null_move_guard ::
  "params \<Rightarrow> 'w env \<Rightarrow> NodeType \<Rightarrow> int \<Rightarrow> search_locals \<Rightarrow> 'w sstate \<Rightarrow> bool" where
  "null_move_guard c E NT ss L s =
     (\<not> PvNode NT
      \<and> \<not> ss_skipNullMove (stack s ss)
      \<and> sl_depth L > ONE_PLY c
      \<and> \<not> sl_inCheck L
      \<and> sl_refinedValue L \<ge> sl_beta L
      \<and> \<bar>sl_beta L\<bar> < VALUE_MATE_IN_PLY_MAX c
      \<and> non_pawn_material E (world s) (side_to_move E (world s)) \<noteq> 0)"

definition null_move_R :: "params \<Rightarrow> search_locals \<Rightarrow> int" where
  "null_move_R c L =
     (let R = 3 + (if sl_depth L \<ge> 5 * ONE_PLY c then sl_depth L sdiv 8 else 0)
      in if sl_refinedValue L - PawnValueMidgame c > sl_beta L then R + 1 else R)"

definition step8 ::
  "params \<Rightarrow> 'w env \<Rightarrow> NodeType \<Rightarrow> int \<Rightarrow> search_locals \<times> 'w sstate \<Rightarrow> 'w step" where
  "step8 c E NT ss a =
     (case a of (L, s) \<Rightarrow>
        if null_move_guard c E NT ss L s
        then
          let depth = sl_depth L;
              alpha = sl_alpha L;
              beta = sl_beta L;
              s1 = upd_ss s ss (\<lambda>f. f\<lparr> ss_currentMove := MOVE_NULL c \<rparr>);
              R = null_move_R c L;
              s2 = upd_world s1 (do_null_move_true E);
              s3 = upd_ss s2 (ss + 1) (\<lambda>f. f\<lparr> ss_skipNullMove := True \<rparr>);
              r = (if depth - R * ONE_PLY c < ONE_PLY c
                   then qsearch c E NonPV s3 (ss + 1) (- beta) (- alpha) (DEPTH_ZERO c)
                   else search_rec E NonPV s3 (ss + 1) (- beta) (- alpha) (depth - R * ONE_PLY c));
              nullValue = - fst r;
              s4 = upd_ss (snd r) (ss + 1) (\<lambda>f. f\<lparr> ss_skipNullMove := False \<rparr>);
              s5 = upd_world s4 (do_null_move_false E)
          in if nullValue \<ge> beta
             then
               let nullValue1 = (if nullValue \<ge> VALUE_MATE_IN_PLY_MAX c then beta else nullValue)
               in if depth < 6 * ONE_PLY c then Inl (nullValue1, s5)
                  else
                    let s6 = upd_ss s5 ss (\<lambda>f. f\<lparr> ss_skipNullMove := True \<rparr>);
                        r2 = search_rec E NonPV s6 ss alpha beta (depth - R * ONE_PLY c);
                        s7 = upd_ss (snd r2) ss (\<lambda>f. f\<lparr> ss_skipNullMove := False \<rparr>)
                    in if fst r2 \<ge> beta then Inl (nullValue1, s7) else Inr (L, s7)
             else
               let threatMove = ss_bestMove (stack s5 (ss + 1))
               in if depth < ThreatDepth c
                     \<and> ss_reduction (stack s5 (ss - 1)) \<noteq> 0
                     \<and> threatMove \<noteq> MOVE_NONE
                     \<and> connected_moves E (world s5) (ss_currentMove (stack s5 (ss - 1))) threatMove
                  then Inl (beta - 1, s5)
                  else Inr (L\<lparr> sl_threatMove := threatMove \<rparr>, s5)
        else Inr (L, s))"

text \<open>Step 9, ProbCut: the loop over the captures of its move picker.\<close>

fun probcut_loop ::
  "'w env \<Rightarrow> int \<Rightarrow> Value \<Rightarrow> Depth \<Rightarrow> Move list \<Rightarrow> 'w sstate
     \<Rightarrow> (Value \<times> 'w sstate) + 'w sstate" where
  "probcut_loop E ss rbeta rdepth [] s = Inr s"
| "probcut_loop E ss rbeta rdepth (move # moves) s =
     (if pl_move_is_legal E (world s) move
      then
        let s1 = upd_world s (\<lambda>w. do_move E w move (move_gives_check E w move));
            r = search_rec E NonPV s1 (ss + 1) (- rbeta) (- rbeta + 1) rdepth;
            v = - fst r;
            s2 = upd_world (snd r) (\<lambda>w. undo_move E w move)
        in if v \<ge> rbeta then Inl (v, s2) else probcut_loop E ss rbeta rdepth moves s2
      else probcut_loop E ss rbeta rdepth moves s)"

definition step9 ::
  "params \<Rightarrow> 'w env \<Rightarrow> NodeType \<Rightarrow> int \<Rightarrow> search_locals \<times> 'w sstate \<Rightarrow> 'w step" where
  "step9 c E NT ss a =
     (case a of (L, s) \<Rightarrow>
        if \<not> PvNode NT
           \<and> sl_depth L \<ge> RazorDepth c + ONE_PLY c
           \<and> \<not> sl_inCheck L
           \<and> \<not> ss_skipNullMove (stack s ss)
           \<and> sl_excludedMove L = MOVE_NONE
           \<and> \<bar>sl_beta L\<bar> < VALUE_MATE_IN_PLY_MAX c
        then
          let rbeta = sl_beta L + 200;
              rdepth = sl_depth L - ONE_PLY c - 3 * ONE_PLY c;
              moves = MovePicker_probcut E (world s) (sl_ttMove L) (captured_piece_type E (world s))
          in case probcut_loop E ss rbeta rdepth moves s of
               Inl r \<Rightarrow> Inl r
             | Inr s1 \<Rightarrow> Inr (L, s1)
        else Inr (L, s))"

text \<open>Step 10, internal iterative deepening.\<close>

definition step10 ::
  "params \<Rightarrow> 'w env \<Rightarrow> NodeType \<Rightarrow> int \<Rightarrow> search_locals \<times> 'w sstate \<Rightarrow> 'w step" where
  "step10 c E NT ss a =
     (case a of (L, s) \<Rightarrow>
        if sl_depth L \<ge> IIDDepth c (PvNode NT)
           \<and> sl_ttMove L = MOVE_NONE
           \<and> (PvNode NT \<or> (\<not> sl_inCheck L \<and> ss_eval (stack s ss) + IIDMargin \<ge> sl_beta L))
        then
          let d = (if PvNode NT then sl_depth L - 2 * ONE_PLY c else sl_depth L sdiv 2);
              s1 = upd_ss s ss (\<lambda>f. f\<lparr> ss_skipNullMove := True \<rparr>);
              r = search_rec E (if PvNode NT then PV else NonPV) s1 ss (sl_alpha L) (sl_beta L) d;
              s2 = upd_ss (snd r) ss (\<lambda>f. f\<lparr> ss_skipNullMove := False \<rparr>);
              tte = TT_probe E (world s2) (sl_posKey L);
              ttMove = (case tte of Some e \<Rightarrow> tte_move e | None \<Rightarrow> MOVE_NONE)
          in Inr (L\<lparr> sl_tte := tte, sl_ttMove := ttMove \<rparr>, s2)
        else Inr (L, s))"

text \<open>
  Steps 20 and 21, after the move loop: the score of a node without a move, the store in
  the transposition table and the update of killers and history.
\<close>

definition search_finish ::
  "params \<Rightarrow> 'w env \<Rightarrow> NodeType \<Rightarrow> int \<Rightarrow> search_locals \<Rightarrow> 'w loop_result
     \<Rightarrow> Value \<times> 'w sstate" where
  "search_finish c E NT ss L R =
     (let s = lr_state R;
          bestValue = lr_bestValue R
      in if \<not> SpNode NT \<and> lr_moveCount R = 0
         then ((if sl_excludedMove L \<noteq> MOVE_NONE then sl_oldAlpha L
                else if sl_inCheck L then value_mated_in E (ss_ply (stack s ss))
                else VALUE_DRAW c), s)
         else if \<not> SpNode NT \<and> \<not> StopRequest s \<and> \<not> cutoff_occurred E (world s)
         then
           let move = (if bestValue \<le> sl_oldAlpha L then MOVE_NONE else ss_bestMove (stack s ss));
               vt = (if bestValue \<le> sl_oldAlpha L then VALUE_TYPE_UPPER c
                     else if bestValue \<ge> sl_beta L then VALUE_TYPE_LOWER c
                     else VALUE_TYPE_EXACT c);
               s1 = upd_world s
                      (\<lambda>w. TT_store E w (sl_posKey L) (value_to_tt c bestValue (ss_ply (stack s ss)))
                              vt (sl_depth L) move (ss_eval (stack s ss)) (ss_evalMargin (stack s ss)))
           in if bestValue \<ge> sl_beta L \<and> \<not> is_capture_or_promotion E (world s1) move
              then
                let s2 = (if move \<noteq> ss_killers0 (stack s1 ss)
                          then upd_ss s1 ss
                                 (\<lambda>f. f\<lparr> ss_killers1 := ss_killers0 f, ss_killers0 := move \<rparr>)
                          else s1)
                in (bestValue,
                    upd_world s2
                      (\<lambda>w. update_history E w move (sl_depth L) (lr_movesSearched R)
                              (lr_playedMoveCount R)))
              else (bestValue, s1)
         else (bestValue, s))"

text \<open>
  The steps in a row. \<open>search_to_step6\<close> is the function up to the point where step 6
  starts and \<open>search_to_step8\<close> up to step 8; \<open>search_from_step9\<close> is the rest of the
  function after step 8: ProbCut, internal iterative deepening, the move loop and the
  steps after it.
\<close>

definition search_to_step6 ::
  "params \<Rightarrow> 'w env \<Rightarrow> NodeType \<Rightarrow> 'w sstate \<Rightarrow> int \<Rightarrow> Value \<Rightarrow> Value \<Rightarrow> Depth \<Rightarrow> 'w step" where
  "search_to_step6 c E NT s ss alpha beta depth =
     next_step (next_step (next_step (next_step
       (step1 c E ss (search_entry c E NT s ss alpha beta depth))
       (step2 c E NT ss)) (step3 c E NT ss)) (step4 c E NT ss)) (step5 c E ss)"

definition search_to_step8 ::
  "params \<Rightarrow> 'w env \<Rightarrow> NodeType \<Rightarrow> 'w sstate \<Rightarrow> int \<Rightarrow> Value \<Rightarrow> Value \<Rightarrow> Depth \<Rightarrow> 'w step" where
  "search_to_step8 c E NT s ss alpha beta depth =
     next_step (next_step (search_to_step6 c E NT s ss alpha beta depth)
       (step6 c E NT ss)) (step7 c E NT ss)"

definition search_from_step9 ::
  "params \<Rightarrow> 'w env \<Rightarrow> NodeType \<Rightarrow> int \<Rightarrow> search_locals \<times> 'w sstate \<Rightarrow> Value \<times> 'w sstate" where
  "search_from_step9 c E NT ss a =
     (case next_step (step9 c E NT ss a) (step10 c E NT ss) of
        Inl r \<Rightarrow> r
      | Inr (L, s1) \<Rightarrow> search_finish c E NT ss L (move_loop E NT s1 ss L))"

definition search ::
  "params \<Rightarrow> 'w env \<Rightarrow> NodeType \<Rightarrow> 'w sstate \<Rightarrow> int \<Rightarrow> Value \<Rightarrow> Value \<Rightarrow> Depth
     \<Rightarrow> Value \<times> 'w sstate" where
  "search c E NT s ss alpha beta depth =
     (if SpNode NT
      then search_split_point E NT (snd (search_entry c E NT s ss alpha beta depth)) ss alpha beta depth
      else case next_step (search_to_step8 c E NT s ss alpha beta depth) (step8 c E NT ss) of
             Inl r \<Rightarrow> r
           | Inr a \<Rightarrow> search_from_step9 c E NT ss a)"

text \<open>
  \<open>search_to_loop\<close> is the function up to the move loop, and \<open>same_entry_locals\<close>
  says that two records of locals agree on \<open>depth\<close>, \<open>oldAlpha\<close> and \<open>inCheck\<close>,
  which no step assigns.
\<close>

definition search_to_loop ::
  "params \<Rightarrow> 'w env \<Rightarrow> NodeType \<Rightarrow> 'w sstate \<Rightarrow> int \<Rightarrow> Value \<Rightarrow> Value \<Rightarrow> Depth \<Rightarrow> 'w step" where
  "search_to_loop c E NT s ss alpha beta depth =
     next_step (next_step (next_step (search_to_step8 c E NT s ss alpha beta depth)
       (step8 c E NT ss)) (step9 c E NT ss)) (step10 c E NT ss)"

definition same_entry_locals :: "search_locals \<Rightarrow> search_locals \<Rightarrow> bool" where
  "same_entry_locals L L' =
     (sl_depth L' = sl_depth L \<and> sl_oldAlpha L' = sl_oldAlpha L \<and> sl_inCheck L' = sl_inCheck L)"

section \<open>A small world for evaluation\<close>

text \<open>
  An instance of the environment, to run the model on concrete inputs. The world holds
  whether the side to move is in check, the static evaluation and the list of the entries
  stored in the transposition table, the latest first. A probe returns the latest entry
  stored under the key. The move pickers are empty, a search of a child returns the lower
  end of its window, a search at the frame 1 the upper end, and the move loop tries no
  move.
\<close>

record toy_world =
  tw_check :: bool
  tw_eval :: Value
  tw_tt :: "(Key \<times> TTEntry) list"

definition toy_env :: "toy_world env" where
  "toy_env =
     \<lparr> in_check = tw_check,
       side_to_move = (\<lambda>w. 0),
       king_square = (\<lambda>w c. 60),
       piece_on = (\<lambda>w sq. sq),
       occupied_squares = (\<lambda>w. 0xFFFF),
       pieces = (\<lambda>w c. 0x300),
       attacks_from_KING = (\<lambda>w sq. 0x7),
       attacks_from = (\<lambda>w p sq. 0),
       attacks_from_occ = (\<lambda>w p sq occ. if sq = 20 then 0x300 else 0),
       see = (\<lambda>w m. 0),
       see_sign = (\<lambda>w m. 0),
       is_draw_false = (\<lambda>w. False),
       is_draw_true = (\<lambda>w. False),
       get_key = (\<lambda>w. 1),
       get_exclusion_key = (\<lambda>w. 2),
       non_pawn_material = (\<lambda>w c. 5000),
       has_pawn_on_7th = (\<lambda>w c. False),
       captured_piece_type = (\<lambda>w. 0),
       move_gives_check = (\<lambda>w m. False),
       is_capture = (\<lambda>w m. False),
       is_capture_or_promotion = (\<lambda>w m. False),
       is_passed_pawn_push = (\<lambda>w m. False),
       can_castle = (\<lambda>w c. False),
       pl_move_is_legal = (\<lambda>w m. True),
       do_move = (\<lambda>w m g. w),
       undo_move = (\<lambda>w m. w),
       do_null_move_true = (\<lambda>w. w),
       do_null_move_false = (\<lambda>w. w),
       pos_thread = (\<lambda>w. 0),
       move_from = (\<lambda>m. m div 64),
       move_to = (\<lambda>m. m mod 64),
       make_move = (\<lambda>f t. f * 64 + t),
       is_promotion = (\<lambda>m. False),
       is_enpassant = (\<lambda>m. False),
       is_special = (\<lambda>m. False),
       type_of = (\<lambda>p. p mod 8),
       flip = (\<lambda>c. 1 - c),
       value_mate_in = (\<lambda>ply. 30000 - ply),
       value_mated_in = (\<lambda>ply. - 30000 + ply),
       PieceValueMidgame = (\<lambda>p. 0),
       PieceValueEndgame = (\<lambda>p. if p = 8 then 100 else if p = 9 then 300 else 0),
       PawnValueEndgame = 258,
       QUEEN = 5,
       PIECE_TYPE_NONE = 0,
       squares_between = (\<lambda>a b. 0),
       FutilityMargins = (\<lambda>d mn. 100),
       evaluate = (\<lambda>w. (tw_eval w, 0)),
       TT_probe = (\<lambda>w k. map_of (tw_tt w) k),
       TT_store = (\<lambda>w k v t d m sv svm.
                     w\<lparr> tw_tt := (k, \<lparr> tte_move = m, tte_value = v, tte_type = t, tte_depth = d,
                                        tte_static_value = sv, tte_static_value_margin = svm \<rparr>)
                                   # tw_tt w \<rparr>),
       TT_refresh = (\<lambda>w k. w),
       H_update = (\<lambda>w p sq v. w),
       H_update_gain = (\<lambda>w p sq v. w),
       MovePicker_qsearch = (\<lambda>w m d sq. []),
       MovePicker_probcut = (\<lambda>w m pt. []),
       cutoff_occurred = (\<lambda>w. False),
       Rml_pv0 = (\<lambda>w. 0),
       poll = (\<lambda>s. s),
       search_rec = (\<lambda>NT s ss alpha beta depth. (if ss = 1 then beta else alpha, s)),
       qsearch_rec = (\<lambda>NT s ss alpha beta depth. (if ss = 1 then beta else alpha, s)),
       move_loop = (\<lambda>NT s ss L. \<lparr> lr_moveCount = 0, lr_bestValue = - 30001,
                                    lr_movesSearched = [], lr_playedMoveCount = 0,
                                    lr_state = s \<rparr>),
       search_split_point = (\<lambda>NT s ss alpha beta depth. (0, s)) \<rparr>"

definition toy_frame :: SearchStack where
  "toy_frame =
     \<lparr> ss_ply = 0, ss_currentMove = 0, ss_bestMove = 0, ss_killers0 = 0, ss_killers1 = 0,
       ss_eval = 0, ss_evalMargin = 0, ss_skipNullMove = False, ss_reduction = 0,
       ss_excludedMove = 0 \<rparr>"

definition toy_state :: "bool \<Rightarrow> Value \<Rightarrow> (Key \<times> TTEntry) list \<Rightarrow> toy_world sstate" where
  "toy_state chk ev tt =
     \<lparr> world = \<lparr> tw_check = chk, tw_eval = ev, tw_tt = tt \<rparr>,
       stack = (\<lambda>i. toy_frame),
       StopRequest = False, NodesSincePoll = 0, NodesBetweenPolls = 30000, maxPly = 0 \<rparr>"

section \<open>Properties\<close>

text \<open>
  C1. For every entry, depth, beta and ply, \<open>can_return_tt\<close> is true exactly when the
  entry is usable for a cut-off in the specification's sense: (deep enough, or score at
  least max(MATE_IN_MAX, beta), or score below min(MATED_IN_MAX, beta)) and (LOWER bit
  with score at least beta, or UPPER bit with score below beta), the score being
  \<open>value_from_tt\<close> of the stored value at that ply.
\<close>

theorem can_return_tt_iff_usable:
  "can_return_tt c tte d b p = usable_for_cutoff c tte d b p"
  unfolding can_return_tt_def usable_for_cutoff_def has_LOWER_def has_UPPER_def
    type_and_def Let_def
  by auto

text \<open>
  C2. For every score \<open>v\<close> and every ply that is not negative, loading what was stored at
  the same ply gives \<open>v\<close> back: \<open>value_from_tt (value_to_tt v ply) ply = v\<close>.
  Storing adds the ply to a score at or above \<open>VALUE_MATE_IN_PLY_MAX\<close>, subtracts it from
  one at or below \<open>VALUE_MATED_IN_PLY_MAX\<close> and leaves the others; loading does the
  opposite.
\<close>

theorem value_tt_round_trip:
  "0 \<le> ply \<Longrightarrow>
     value_from_tt c (value_to_tt c v ply) ply = v
     \<and> value_to_tt c v ply =
         (if v \<ge> VALUE_MATE_IN_PLY_MAX c then v + ply
          else if v \<le> VALUE_MATED_IN_PLY_MAX c then v - ply else v)"
  unfolding value_to_tt_def value_from_tt_def
  by auto

theorem value_tt_round_trip_witness:
  "(0::int) \<le> 7 \<and> value_to_tt sample_params 29950 7 = 29957
     \<and> value_from_tt sample_params (value_to_tt sample_params 29950 7) 7 = 29950"
  using value_tt_round_trip [of 7 sample_params 29950]
  by (simp add: sample_params_def value_to_tt_def value_from_tt_def)

text \<open>Truncating division agrees with \<open>div\<close> where nothing is negative.\<close>

lemma sdiv_nonneg: "0 \<le> (a::int) \<Longrightarrow> 0 < b \<Longrightarrow> a sdiv b = a div b"
  by (simp add: signed_divide_int_def sgn_if)

lemma round_up_8:
  fixes x :: int
  assumes "16 \<le> x" "x \<le> 24"
  shows "(x + 7) div 8 * 8 = (if x = 16 then 16 else 24)"
  using assms by presburger

text \<open>
  C7. In \<open>id_loop\<close>, when \<open>depth \<ge> 5\<close> and the previous score is below
  \<open>VALUE_KNOWN_WIN\<close> in absolute value, the aspiration delta is
  \<open>x = min (max (|delta1| + |delta2| / 2) 16) 24\<close> rounded up to the next multiple of 8
  (\<open>(x + 7) / 8 * 8\<close>), so it is 16 or 24, and the window is the previous score minus
  and plus that delta, clamped to \<open>-VALUE_INFINITE\<close> and \<open>VALUE_INFINITE\<close>. In every
  other case the window is \<open>[-VALUE_INFINITE, VALUE_INFINITE]\<close>.
\<close>

theorem aspiration_window_initial:
  "(depth \<ge> 5 \<and> \<bar>prevScore\<bar> < VALUE_KNOWN_WIN c \<longrightarrow>
      (let x = min (max (\<bar>bestValues (depth - 1) - bestValues (depth - 2)\<bar>
                          + \<bar>bestValues (depth - 2) - bestValues (depth - 3)\<bar> div 2) 16) 24;
           delta = (x + 7) div 8 * 8
       in aspiration_window c depth prevScore bestValues aspirationDelta =
             (delta, max (prevScore - delta) (- VALUE_INFINITE c),
                     min (prevScore + delta) (VALUE_INFINITE c))
          \<and> 8 dvd delta \<and> x \<le> delta \<and> delta < x + 8
          \<and> (delta = 16 \<or> delta = 24)))
   \<and> (\<not> (depth \<ge> 5 \<and> \<bar>prevScore\<bar> < VALUE_KNOWN_WIN c) \<longrightarrow>
        aspiration_window c depth prevScore bestValues aspirationDelta =
          (aspirationDelta, - VALUE_INFINITE c, VALUE_INFINITE c))"
proof -
  define d1 where "d1 = \<bar>bestValues (depth - 1) - bestValues (depth - 2)\<bar>"
  define d2 where "d2 = \<bar>bestValues (depth - 2) - bestValues (depth - 3)\<bar>"
  define x where "x = min (max (d1 + d2 div 2) 16) 24"
  define delta where "delta = (x + 7) div 8 * 8"
  have d2nn: "d2 sdiv 2 = d2 div 2"
    by (rule sdiv_nonneg) (simp_all add: d2_def)
  have xr: "16 \<le> x" "x \<le> 24" by (simp_all add: x_def)
  have nn: "(x + 7) sdiv 8 = (x + 7) div 8"
    by (rule sdiv_nonneg) (use xr in simp_all)
  have r: "delta = (if x = 16 then 16 else 24)"
    unfolding delta_def by (rule round_up_8 [OF xr])
  have p: "8 dvd delta" "x \<le> delta" "delta < x + 8" "delta = 16 \<or> delta = 24"
    using xr unfolding r by (simp_all split: if_splits)
  have w: "depth \<ge> 5 \<and> \<bar>prevScore\<bar> < VALUE_KNOWN_WIN c \<Longrightarrow>
        aspiration_window c depth prevScore bestValues aspirationDelta =
          (delta, max (prevScore - delta) (- VALUE_INFINITE c),
                  min (prevScore + delta) (VALUE_INFINITE c))"
    unfolding aspiration_window_def Let_def
    by (simp only: if_True simp_thms d1_def [symmetric] d2_def [symmetric] d2nn x_def [symmetric] nn
        delta_def [symmetric])
  have e: "\<not> (depth \<ge> 5 \<and> \<bar>prevScore\<bar> < VALUE_KNOWN_WIN c) \<Longrightarrow>
        aspiration_window c depth prevScore bestValues aspirationDelta =
          (aspirationDelta, - VALUE_INFINITE c, VALUE_INFINITE c)"
    unfolding aspiration_window_def by (simp only: if_False simp_thms)
  show ?thesis
    unfolding Let_def
    using w e p
    by (simp only: d1_def [symmetric] d2_def [symmetric] x_def [symmetric] delta_def [symmetric]) blast
qed


theorem aspiration_window_initial_witness:
  "aspiration_window sample_params 6 40 (\<lambda>i. if i = 5 then 40 else if i = 4 then 31 else 25) 0
     = (16, 24, 56)
   \<and> aspiration_window sample_params 4 40 (\<lambda>i. 0) 0 = (0, -30001, 30001)"
  using aspiration_window_initial [of 6 40 sample_params "(\<lambda>i. if i = 5 then 40 else if i = 4 then 31 else 25)" 0]
        aspiration_window_initial [of 4 40 sample_params "(\<lambda>i. 0)" 0]
  by (simp add: sample_params_def value_to_tt_def value_from_tt_def)

text \<open>
  C8 as stated fails: with a node limit the time budget is not looked at. With
  \<open>maxNodes = 50000\<close> and 500 ms on the clock, \<open>NodesBetweenPolls\<close> is 30000, not 1000.
\<close>

theorem think_NodesBetweenPolls_counterexample:
  "0 < lim_time \<lparr> lim_time = 500, lim_increment = 0, lim_movesToGo = 0, lim_maxTime = 0,
                   lim_maxDepth = 0, lim_maxNodes = 50000, lim_infinite = False, lim_ponder = False \<rparr>
   \<and> lim_time \<lparr> lim_time = 500, lim_increment = 0, lim_movesToGo = 0, lim_maxTime = 0,
                 lim_maxDepth = 0, lim_maxNodes = 50000, lim_infinite = False, lim_ponder = False \<rparr> < 1000
   \<and> think_NodesBetweenPolls \<lparr> lim_time = 500, lim_increment = 0, lim_movesToGo = 0, lim_maxTime = 0,
                 lim_maxDepth = 0, lim_maxNodes = 50000, lim_infinite = False, lim_ponder = False \<rparr> \<noteq> 1000"
  by (simp add: think_NodesBetweenPolls_def)

text \<open>
  C8, amended. Without a node limit (\<open>maxNodes = 0\<close>), \<open>NodesBetweenPolls\<close> is 1000 when
  the time budget is not zero and below 1000 ms, 5000 when it is at least 1000 ms and
  below 5000 ms, and 30000 when it is zero or at least 5000 ms. With a node limit it is
  \<open>min maxNodes 30000\<close> whatever the time budget, so it does not exceed \<open>maxNodes\<close>.
\<close>

theorem think_NodesBetweenPolls_by_limits:
  "(lim_maxNodes L = 0 \<longrightarrow>
      (lim_time L \<noteq> 0 \<and> lim_time L < 1000 \<longrightarrow> think_NodesBetweenPolls L = 1000)
    \<and> (1000 \<le> lim_time L \<and> lim_time L < 5000 \<longrightarrow> think_NodesBetweenPolls L = 5000)
    \<and> (lim_time L = 0 \<or> 5000 \<le> lim_time L \<longrightarrow> think_NodesBetweenPolls L = 30000))
   \<and> (lim_maxNodes L \<noteq> 0 \<longrightarrow>
        think_NodesBetweenPolls L = min (lim_maxNodes L) 30000
      \<and> think_NodesBetweenPolls L \<le> lim_maxNodes L)"
  by (auto simp: think_NodesBetweenPolls_def)

theorem think_NodesBetweenPolls_by_limits_witness:
  "think_NodesBetweenPolls \<lparr> lim_time = 500, lim_increment = 0, lim_movesToGo = 0,
       lim_maxTime = 0, lim_maxDepth = 0, lim_maxNodes = 0, lim_infinite = False,
       lim_ponder = False \<rparr> = 1000
   \<and> think_NodesBetweenPolls \<lparr> lim_time = 3000, lim_increment = 0, lim_movesToGo = 0,
       lim_maxTime = 0, lim_maxDepth = 0, lim_maxNodes = 0, lim_infinite = False,
       lim_ponder = False \<rparr> = 5000
   \<and> think_NodesBetweenPolls \<lparr> lim_time = 0, lim_increment = 0, lim_movesToGo = 0,
       lim_maxTime = 0, lim_maxDepth = 0, lim_maxNodes = 0, lim_infinite = False,
       lim_ponder = False \<rparr> = 30000
   \<and> think_NodesBetweenPolls \<lparr> lim_time = 500, lim_increment = 0, lim_movesToGo = 0,
       lim_maxTime = 0, lim_maxDepth = 0, lim_maxNodes = 200, lim_infinite = False,
       lim_ponder = False \<rparr> = 200"
  using think_NodesBetweenPolls_by_limits [of "\<lparr> lim_time = 500, lim_increment = 0,
       lim_movesToGo = 0, lim_maxTime = 0, lim_maxDepth = 0, lim_maxNodes = 0,
       lim_infinite = False, lim_ponder = False \<rparr>"]
    think_NodesBetweenPolls_by_limits [of "\<lparr> lim_time = 3000, lim_increment = 0,
       lim_movesToGo = 0, lim_maxTime = 0, lim_maxDepth = 0, lim_maxNodes = 0,
       lim_infinite = False, lim_ponder = False \<rparr>"]
    think_NodesBetweenPolls_by_limits [of "\<lparr> lim_time = 0, lim_increment = 0,
       lim_movesToGo = 0, lim_maxTime = 0, lim_maxDepth = 0, lim_maxNodes = 0,
       lim_infinite = False, lim_ponder = False \<rparr>"]
    think_NodesBetweenPolls_by_limits [of "\<lparr> lim_time = 500, lim_increment = 0,
       lim_movesToGo = 0, lim_maxTime = 0, lim_maxDepth = 0, lim_maxNodes = 200,
       lim_infinite = False, lim_ponder = False \<rparr>"]
  by simp

text \<open>
  The move loop of \<open>set_position\<close> ends at the first token that is not a move of the
  position reached; what follows it is not read.
\<close>

lemma parse_moves_stops:
  "move_from_uci U (root_pos (parse_moves U s ts)) t = MOVE_NONE \<Longrightarrow>
     parse_moves U s (ts @ t # rest) = parse_moves U s ts"
proof (induction ts arbitrary: s)
  case Nil
  then show ?case by simp
next
  case (Cons a ts)
  show ?case
  proof (cases "move_from_uci U (root_pos s) a = MOVE_NONE")
    case True
    then show ?thesis by simp
  next
    case False
    with Cons show ?thesis by (simp add: Let_def)
  qed
qed

text \<open>
  C10. When the first token is neither \<open>startpos\<close> nor \<open>fen\<close> (or there is none),
  \<open>set_position\<close> returns with the position untouched. For \<open>startpos\<close> the position is
  set from the FEN string of the initial position and the token after it is skipped; for
  \<open>fen\<close> it is set from the tokens up to \<open>moves\<close>. The moves that follow are played up
  to the first token that \<open>move_from_uci\<close> does not turn into a move.
\<close>

theorem set_position_tokens:
  "(is = [] \<or> (hd is \<noteq> ''startpos'' \<and> hd is \<noteq> ''fen'') \<longrightarrow> set_position U s is = s)
   \<and> set_position U s (''startpos'' # is) =
       parse_moves U (s\<lparr> root_pos := from_fen U (root_pos s) StarFEN (UCI_Chess960 U) \<rparr>) (tl is)
   \<and> set_position U s (''fen'' # is) =
       parse_moves U (s\<lparr> root_pos := from_fen U (root_pos s) (fst (read_fen is [])) (UCI_Chess960 U) \<rparr>)
         (snd (read_fen is []))
   \<and> (move_from_uci U (root_pos (parse_moves U s0 ts)) t = MOVE_NONE \<longrightarrow>
        parse_moves U s0 (ts @ t # rest) = parse_moves U s0 ts)"
proof -
  have a: "is = [] \<or> (hd is \<noteq> ''startpos'' \<and> hd is \<noteq> ''fen'') \<Longrightarrow> set_position U s is = s"
    by (cases "is") (auto simp: set_position_def)
  have b: "set_position U s (''startpos'' # is) =
       parse_moves U (s\<lparr> root_pos := from_fen U (root_pos s) StarFEN (UCI_Chess960 U) \<rparr>) (tl is)"
    by (simp add: set_position_def)
  have c: "set_position U s (''fen'' # is) =
       parse_moves U (s\<lparr> root_pos := from_fen U (root_pos s) (fst (read_fen is [])) (UCI_Chess960 U) \<rparr>)
         (snd (read_fen is []))"
    by (simp add: set_position_def split: prod.splits)
  show ?thesis using a b c parse_moves_stops [of U s0 ts t rest] by blast
qed

theorem set_position_tokens_witness:
  "set_position toy_uci \<lparr> root_pos = (''8/8/8/8/8/3k4/3p4/3K4 w - - 0 1'', [5]), SetupState = 3 \<rparr>
      [''go'', ''e2e4'']
     = \<lparr> root_pos = (''8/8/8/8/8/3k4/3p4/3K4 w - - 0 1'', [5]), SetupState = 3 \<rparr>
   \<and> set_position toy_uci \<lparr> root_pos = (''8/8/8/8/8/3k4/3p4/3K4 w - - 0 1'', [5]), SetupState = 3 \<rparr>
      [''startpos'', ''moves'', ''e2e4'', ''zz'', ''e7e5'']
     = \<lparr> root_pos = (StarFEN, [1]), SetupState = 4 \<rparr>
   \<and> parse_moves toy_uci \<lparr> root_pos = (StarFEN, []), SetupState = 101 \<rparr>
        ([''e2e4''] @ ''zz'' # [''e7e5''])
     = \<lparr> root_pos = (StarFEN, [1]), SetupState = 0 \<rparr>"
  using set_position_tokens [of "[''go'', ''e2e4'']" toy_uci
      "\<lparr> root_pos = (''8/8/8/8/8/3k4/3p4/3K4 w - - 0 1'', [5]), SetupState = 3 \<rparr>"
      "\<lparr> root_pos = (StarFEN, []), SetupState = 101 \<rparr>" "[''e2e4'']" "''zz''" "[''e7e5'']"]
    set_position_tokens [of "[''moves'', ''e2e4'', ''zz'', ''e7e5'']" toy_uci
      "\<lparr> root_pos = (''8/8/8/8/8/3k4/3p4/3K4 w - - 0 1'', [5]), SetupState = 3 \<rparr>"
      "\<lparr> root_pos = (StarFEN, []), SetupState = 101 \<rparr>" "[''e2e4'']" "''zz''" "[''e7e5'']"]
  by (simp add: toy_uci_def MOVE_NONE_def)

text \<open>
  What \<open>pop_1st_bit\<close> does on a board that is not empty, and what the loop of rule 3
  leaves in \<open>bv\<close> when it runs to its end.
\<close>

lemma pop_1st_bit_sets:
  assumes "b \<noteq> 0"
  shows "bit b (fst (pop_1st_bit b))"
    and "{n. bit (snd (pop_1st_bit b)) n} = {n. bit b n} - {fst (pop_1st_bit b)}"
proof -
  from assms obtain n where n: "bit b n"
    by (auto simp: bit_eq_iff)
  then have "n < 64" using bit_imp_le_length [of b n] by simp
  with n have "\<exists>sq\<in>set [0..<64]. bit b sq" by auto
  then obtain sq where f: "find (bit b) [0..<64] = Some sq"
    by (cases "find (bit b) [0..<64]") (auto simp: find_None_iff)
  then have sq: "bit b sq" by (auto simp: find_Some_iff)
  show "bit b (fst (pop_1st_bit b))"
    using sq by (simp add: pop_1st_bit_def f)
  show "{n. bit (snd (pop_1st_bit b)) n} = {n. bit b n} - {fst (pop_1st_bit b)}"
    by (auto simp: pop_1st_bit_def f bit_unset_bit_iff)
qed

lemma victims_loop_Some:
  "victims_loop E pos from futilityBase beta b bv = Some bv' \<Longrightarrow>
     bv' = Max (insert bv ((\<lambda>sq. futilityBase + PieceValueEndgame E (piece_on E pos sq))
                            ` {sq. bit b sq}))"
proof (induction E pos "from" futilityBase beta b bv rule: victims_loop.induct)
  case (1 E pos frm futilityBase beta b bv)
  let ?f = "\<lambda>sq. futilityBase + PieceValueEndgame E (piece_on E pos sq)"
  let ?sq = "fst (pop_1st_bit b)"
  let ?b' = "snd (pop_1st_bit b)"
  note unf = victims_loop.simps [of E pos frm futilityBase beta b bv]
  show ?case
  proof (cases "b = 0")
    case True
    with "1.prems" [unfolded unf] have "bv' = bv" by simp
    moreover from True have "{sq. bit b sq} = {}" by simp
    ultimately show ?thesis by simp
  next
    case False
    have fin: "finite {n. bit ?b' n}" by simp
    have split: "{n. bit b n} = insert ?sq {n. bit ?b' n}"
      using pop_1st_bit_sets [OF False] by auto
    from "1.prems" [unfolded unf] False
    have nd: "\<not> (?f ?sq \<ge> beta \<and> see_sign E pos (make_move E frm ?sq) \<ge> 0)"
      by (auto simp: Let_def split: if_splits)
    with "1.prems" [unfolded unf] False
    have rec: "victims_loop E pos frm futilityBase beta ?b' (if ?f ?sq > bv then ?f ?sq else bv) = Some bv'"
      by (auto simp: Let_def split: if_splits)
    have "bv' = Max (insert (if ?f ?sq > bv then ?f ?sq else bv) (?f ` {n. bit ?b' n}))"
      by (rule "1.IH" [OF False refl refl nd rec])
    also have "\<dots> = Max (insert bv (insert (?f ?sq) (?f ` {n. bit ?b' n})))"
    proof (cases "{n. bit ?b' n} = {}")
      case True
      then show ?thesis by (simp add: max_def)
    next
      case False
      then show ?thesis using fin by (simp add: max_def)
    qed
    also have "\<dots> = Max (insert bv (?f ` {n. bit b n}))"
      by (simp add: split)
    finally show ?thesis .
  qed
qed


lemma new_victims_bits:
  "{sq. bit (pieces E pos them AND newAtt AND NOT oldAtt AND NOT (square_bb ksq)) sq}
     = {sq. bit (pieces E pos them) sq \<and> bit newAtt sq \<and> \<not> bit oldAtt sq \<and> sq \<noteq> ksq}"
proof -
  have "bit (pieces E pos them) sq \<Longrightarrow> sq < 64" for sq
    using bit_imp_le_length [of "pieces E pos them" sq] by simp
  then show ?thesis
    by (auto simp: square_bb_def bit_simps)
qed

text \<open>
  C9. Whenever \<open>check_is_dangerous\<close> returns true, \<open>*bestValue\<close> is what it was. When
  it returns false, \<open>*bestValue\<close> is the maximum of its old value and of the futility
  values \<open>futilityBase + PieceValueEndgame[victim]\<close> of the newly attacked victims, so
  it is never lowered.
\<close>

theorem check_is_dangerous_bestValue:
  "(fst (check_is_dangerous E pos move futilityBase beta bestValue) \<longrightarrow>
      snd (check_is_dangerous E pos move futilityBase beta bestValue) = bestValue)
   \<and> (\<not> fst (check_is_dangerous E pos move futilityBase beta bestValue) \<longrightarrow>
        snd (check_is_dangerous E pos move futilityBase beta bestValue) =
          Max (insert bestValue
                ((\<lambda>sq. futilityBase + PieceValueEndgame E (piece_on E pos sq))
                   ` new_victims E pos move))
        \<and> bestValue \<le> snd (check_is_dangerous E pos move futilityBase beta bestValue))"
proof -
  let ?f = "\<lambda>sq. futilityBase + PieceValueEndgame E (piece_on E pos sq)"
  have fin: "finite (new_victims E pos move)"
    by (simp add: new_victims_def Let_def)
  have t: "fst (check_is_dangerous E pos move futilityBase beta bestValue) \<Longrightarrow>
      snd (check_is_dangerous E pos move futilityBase beta bestValue) = bestValue"
    by (auto simp: check_is_dangerous_def Let_def split: if_splits option.splits)
  have f: "snd (check_is_dangerous E pos move futilityBase beta bestValue) =
          Max (insert bestValue (?f ` new_victims E pos move))"
    if "\<not> fst (check_is_dangerous E pos move futilityBase beta bestValue)"
    using that
    by (auto simp: check_is_dangerous_def Let_def new_victims_def new_victims_bits [symmetric]
          split: if_splits option.splits dest!: victims_loop_Some)
  have "bestValue \<le> Max (insert bestValue (?f ` new_victims E pos move))"
    using fin by (intro Max_ge) simp_all
  with t f show ?thesis by auto
qed


theorem check_is_dangerous_bestValue_witness:
  "check_is_dangerous toy_env \<lparr> tw_check = False, tw_eval = 0, tw_tt = [] \<rparr> 788 0 1000 50
     = (False, 300)
   \<and> Max (insert 50 ((\<lambda>sq. 0 + PieceValueEndgame toy_env
                                  (piece_on toy_env \<lparr> tw_check = False, tw_eval = 0, tw_tt = [] \<rparr> sq))
                       ` new_victims toy_env \<lparr> tw_check = False, tw_eval = 0, tw_tt = [] \<rparr> 788))
       = 300
   \<and> check_is_dangerous toy_env \<lparr> tw_check = False, tw_eval = 0, tw_tt = [] \<rparr> 788 0 200 50
     = (True, 50)"
proof -
  have a: "check_is_dangerous toy_env \<lparr> tw_check = False, tw_eval = 0, tw_tt = [] \<rparr> 788 0 1000 50
             = (False, 300)"
    by code_simp
  have b: "check_is_dangerous toy_env \<lparr> tw_check = False, tw_eval = 0, tw_tt = [] \<rparr> 788 0 200 50
             = (True, 50)"
    by code_simp
  show ?thesis
    using check_is_dangerous_bestValue
            [of toy_env "\<lparr> tw_check = False, tw_eval = 0, tw_tt = [] \<rparr>" 788 0 1000 50]
          check_is_dangerous_bestValue
            [of toy_env "\<lparr> tw_check = False, tw_eval = 0, tw_tt = [] \<rparr>" 788 0 200 50]
    by (simp add: a b)
qed

text \<open>Reading the state after an update of a frame or of the world.\<close>

lemma world_upd_ss: "world (upd_ss s i f) = world s"
  by (simp add: upd_ss_def)

lemma stack_upd_ss_same: "stack (upd_ss s i f) i = f (stack s i)"
  by (simp add: upd_ss_def)

lemma stack_upd_ss_other: "j \<noteq> i \<Longrightarrow> stack (upd_ss s i f) j = stack s j"
  by (simp add: upd_ss_def)

lemma stack_upd_world: "stack (upd_world s f) = stack s"
  by (simp add: upd_world_def)

lemma world_upd_world: "world (upd_world s f) = f (world s)"
  by (simp add: upd_world_def)

lemmas upd_state =
  world_upd_ss stack_upd_ss_same stack_upd_ss_other stack_upd_world world_upd_world

text \<open>
  C6 as stated fails: at a stand pat the entry is stored only when the probe found none.
  Here the table holds an entry for the position that does not allow a cut-off, the static
  value 300 it carries is at least beta = 100, and \<open>qsearch\<close> returns 300 with the table
  as it was, no LOWER entry added.
\<close>

theorem qsearch_stand_pat_counterexample:
  "\<not> in_check toy_env (world (toy_state False 300
        [(1, \<lparr> tte_move = 0, tte_value = 30002, tte_type = 0, tte_depth = - 254,
               tte_static_value = 300, tte_static_value_margin = 0 \<rparr>)]))
   \<and> fst (qsearch sample_params toy_env NonPV (toy_state False 300
        [(1, \<lparr> tte_move = 0, tte_value = 30002, tte_type = 0, tte_depth = - 254,
               tte_static_value = 300, tte_static_value_margin = 0 \<rparr>)]) 1 99 100 0) = 300
   \<and> (100 :: int) \<le> 300
   \<and> tw_tt (world (snd (qsearch sample_params toy_env NonPV (toy_state False 300
        [(1, \<lparr> tte_move = 0, tte_value = 30002, tte_type = 0, tte_depth = - 254,
               tte_static_value = 300, tte_static_value_margin = 0 \<rparr>)]) 1 99 100 0)))
       = [(1, \<lparr> tte_move = 0, tte_value = 30002, tte_type = 0, tte_depth = - 254,
                 tte_static_value = 300, tte_static_value_margin = 0 \<rparr>)]"
  by code_simp

text \<open>
  C6, amended. In \<open>qsearch\<close> at a position that is not a draw, within \<open>PLY_MAX\<close>, not
  in check and without a cut-off from the table, \<open>bestValue\<close> starts as the static
  evaluation, taken from the table entry when there is one and from \<open>evaluate\<close>
  otherwise. If it is at least beta the function returns it at once, without a move made
  or a child searched, and stores a LOWER entry with \<open>DEPTH_NONE\<close> and no move only when
  the probe found no entry. Otherwise the loop over the moves starts from this
  \<open>bestValue\<close>, with alpha raised to it at a PV node when it is above alpha.
\<close>

theorem qsearch_stand_pat:
  assumes "\<not> is_draw_true E (world s)"
    and "ss_ply (stack s (ss - 1)) + 1 \<le> PLY_MAX c"
    and "\<not> in_check E (world s)"
    and "qPvNode NT \<or>
         (\<forall>e. TT_probe E (world s) (get_key E (world s)) = Some e \<longrightarrow>
              \<not> can_return_tt c e
                  (if depth \<ge> DEPTH_QS_CHECKS c then DEPTH_QS_CHECKS c else DEPTH_QS_NO_CHECKS c)
                  beta (ss_ply (stack s (ss - 1)) + 1))"
  shows
    "let pos = world s;
         ply = ss_ply (stack s (ss - 1)) + 1;
         ttDepth = (if depth \<ge> DEPTH_QS_CHECKS c then DEPTH_QS_CHECKS c else DEPTH_QS_NO_CHECKS c);
         tte = TT_probe E pos (get_key E pos);
         ttMove = (case tte of Some e \<Rightarrow> tte_move e | None \<Rightarrow> MOVE_NONE);
         bestValue = (case tte of Some e \<Rightarrow> tte_static_value e | None \<Rightarrow> fst (evaluate E pos));
         evalMargin = (case tte of Some e \<Rightarrow> tte_static_value_margin e
                       | None \<Rightarrow> snd (evaluate E pos));
         s3 = upd_ss s ss (\<lambda>f. f\<lparr> ss_bestMove := MOVE_NONE, ss_currentMove := MOVE_NONE,
                                    ss_ply := ply, ss_eval := bestValue \<rparr>)
     in (bestValue \<ge> beta \<longrightarrow>
           qsearch c E NT s ss alpha beta depth =
             (bestValue,
              if tte = None
              then upd_world s3
                     (\<lambda>w. TT_store E w (get_key E w) (value_to_tt c bestValue ply)
                             (VALUE_TYPE_LOWER c) (DEPTH_NONE c) MOVE_NONE bestValue evalMargin)
              else s3))
        \<and> (bestValue < beta \<longrightarrow>
             qsearch c E NT s ss alpha beta depth =
               qsearch_finish c E ss alpha beta False ttDepth evalMargin
                 (qsearch_loop c E NT ss
                    \<lparr> ql_beta = beta, ql_depth = depth, ql_inCheck = False,
                      ql_enoughMaterial =
                        (non_pawn_material E pos (side_to_move E pos) > RookValueMidgame c),
                      ql_ttMove = ttMove,
                      ql_futilityBase = bestValue + evalMargin + FutilityMarginQS \<rparr>
                    (MovePicker_qsearch E pos ttMove depth
                       (move_to E (ss_currentMove (stack s (ss - 1)))))
                    (bestValue,
                     (if qPvNode NT \<and> bestValue > alpha then bestValue else alpha),
                     s3)))"
proof -
  have u: "upd_ss (upd_ss (upd_ss s ss f) ss g) ss h = upd_ss s ss (\<lambda>x. h (g (f x)))" for f g h
    by (simp add: upd_ss_def)
  show ?thesis
    using assms
    by (cases "TT_probe E (world s) (get_key E (world s))")
       (auto simp: qsearch_def qsearch_static_eval_def Let_def u upd_state)
qed


theorem qsearch_stand_pat_witness:
  "fst (qsearch sample_params toy_env NonPV (toy_state False 300 []) 1 99 100 0) = 300
   \<and> tw_tt (world (snd (qsearch sample_params toy_env NonPV (toy_state False 300 []) 1 99 100 0)))
       = [(1, \<lparr> tte_move = 0, tte_value = 300, tte_type = 2, tte_depth = - 254,
                 tte_static_value = 300, tte_static_value_margin = 0 \<rparr>)]
   \<and> qsearch sample_params toy_env PV (toy_state False 300 []) 1 99 1000 0
       = qsearch_finish sample_params toy_env 1 99 1000 False (- 2) 0
           (300, 300, upd_ss (toy_state False 300 []) 1
                        (\<lambda>f. f\<lparr> ss_bestMove := MOVE_NONE, ss_currentMove := MOVE_NONE,
                                 ss_ply := 1, ss_eval := 300 \<rparr>))"
proof -
  have h1: "\<not> is_draw_true toy_env (world (toy_state False 300 []))"
    and h2: "ss_ply (stack (toy_state False 300 []) (1 - 1)) + 1 \<le> PLY_MAX sample_params"
    and h3: "\<not> in_check toy_env (world (toy_state False 300 []))"
    and h4: "\<forall>e. TT_probe toy_env (world (toy_state False 300 []))
                   (get_key toy_env (world (toy_state False 300 []))) = Some e \<longrightarrow>
                 \<not> can_return_tt sample_params e
                     (if 0 \<ge> DEPTH_QS_CHECKS sample_params then DEPTH_QS_CHECKS sample_params
                      else DEPTH_QS_NO_CHECKS sample_params)
                     b (ss_ply (stack (toy_state False 300 []) (1 - 1)) + 1)" for b
    by (simp_all add: toy_env_def toy_state_def toy_frame_def sample_params_def)
  show ?thesis
    using qsearch_stand_pat [where NT = NonPV and beta = 100 and alpha = 99 and depth = 0,
            OF h1 h2 h3 disjI2 [OF h4]]
          qsearch_stand_pat [where NT = PV and beta = 1000 and alpha = 99 and depth = 0,
            OF h1 h2 h3 disjI2 [OF h4]]
    by (simp add: Let_def toy_env_def toy_state_def toy_frame_def sample_params_def
          value_to_tt_def qPvNode_def upd_world_def upd_ss_def MOVE_NONE_def)
qed

text \<open>
  No step of \<open>search\<close> assigns \<open>depth\<close>, \<open>oldAlpha\<close> or \<open>inCheck\<close>: where the
  function falls through to a later step, they are what the entry made them.
\<close>

lemma next_step_Inr:
  "next_step x f = Inr b \<Longrightarrow> \<exists>a. x = Inr a \<and> f a = Inr b"
  by (cases x) (simp_all add: next_step_def)

lemma same_entry_locals_refl: "same_entry_locals L L"
  by (simp add: same_entry_locals_def)

lemma same_entry_locals_trans:
  "same_entry_locals L L' \<Longrightarrow> same_entry_locals L' L'' \<Longrightarrow> same_entry_locals L L''"
  by (simp add: same_entry_locals_def)

lemma step1_keeps: "step1 c E ss (L, s) = Inr (L', s') \<Longrightarrow> same_entry_locals L L'"
  by (auto simp: step1_def Let_def same_entry_locals_def)

lemma step2_keeps: "step2 c E NT ss (L, s) = Inr (L', s') \<Longrightarrow> same_entry_locals L L'"
  by (auto simp: step2_def same_entry_locals_def split: if_splits)

lemma step3_keeps: "step3 c E NT ss (L, s) = Inr (L', s') \<Longrightarrow> same_entry_locals L L'"
  by (auto simp: step3_def Let_def same_entry_locals_def split: if_splits)

lemma step4_keeps: "step4 c E NT ss (L, s) = Inr (L', s') \<Longrightarrow> same_entry_locals L L'"
  by (auto simp: step4_def Let_def same_entry_locals_def split: if_splits)

lemma step5_keeps: "step5 c E ss (L, s) = Inr (L', s') \<Longrightarrow> same_entry_locals L L'"
  by (auto simp: step5_def Let_def same_entry_locals_def split: if_splits option.splits)

lemma step6_keeps: "step6 c E NT ss (L, s) = Inr (L', s') \<Longrightarrow> same_entry_locals L L'"
  by (auto simp: step6_def Let_def same_entry_locals_def split: if_splits)

lemma step7_keeps: "step7 c E NT ss (L, s) = Inr (L', s') \<Longrightarrow> same_entry_locals L L'"
  by (auto simp: step7_def same_entry_locals_def split: if_splits)

lemma step8_keeps: "step8 c E NT ss (L, s) = Inr (L', s') \<Longrightarrow> same_entry_locals L L'"
  by (auto simp: step8_def Let_def same_entry_locals_def split: if_splits)

lemma step9_keeps: "step9 c E NT ss (L, s) = Inr (L', s') \<Longrightarrow> same_entry_locals L L'"
  by (auto simp: step9_def Let_def same_entry_locals_def split: if_splits sum.splits)

lemma step10_keeps: "step10 c E NT ss (L, s) = Inr (L', s') \<Longrightarrow> same_entry_locals L L'"
  by (auto simp: step10_def Let_def same_entry_locals_def split: if_splits)

lemma search_entry_locals:
  "search_entry c E NT s ss alpha beta depth = (L, s') \<Longrightarrow>
     sl_depth L = depth \<and> sl_oldAlpha L = alpha \<and> sl_inCheck L = in_check E (world s)"
  by (auto simp: search_entry_def Let_def)

lemma search_to_step6_locals:
  assumes "search_to_step6 c E NT s ss alpha beta depth = Inr (L, s1)"
  shows "sl_depth L = depth \<and> sl_oldAlpha L = alpha \<and> sl_inCheck L = in_check E (world s)"
proof -
  obtain L0 s0 where e: "search_entry c E NT s ss alpha beta depth = (L0, s0)"
    by (cases "search_entry c E NT s ss alpha beta depth")
  from assms [unfolded search_to_step6_def e]
  obtain a4 where a4: "next_step (next_step (next_step (step1 c E ss (L0, s0)) (step2 c E NT ss))
                         (step3 c E NT ss)) (step4 c E NT ss) = Inr a4"
    and s5: "step5 c E ss a4 = Inr (L, s1)"
    by (blast dest: next_step_Inr)
  from a4 obtain a3 where a3: "next_step (next_step (step1 c E ss (L0, s0)) (step2 c E NT ss))
                         (step3 c E NT ss) = Inr a3"
    and s4: "step4 c E NT ss a3 = Inr a4"
    by (blast dest: next_step_Inr)
  from a3 obtain a2 where a2: "next_step (step1 c E ss (L0, s0)) (step2 c E NT ss) = Inr a2"
    and s3: "step3 c E NT ss a2 = Inr a3"
    by (blast dest: next_step_Inr)
  from a2 obtain a1 where s1: "step1 c E ss (L0, s0) = Inr a1"
    and s2: "step2 c E NT ss a1 = Inr a2"
    by (blast dest: next_step_Inr)
  have "same_entry_locals L0 (fst a1)"
    using s1 step1_keeps [of c E ss L0 s0 "fst a1" "snd a1"] by simp
  moreover have "same_entry_locals (fst a1) (fst a2)"
    using s2 step2_keeps [of c E NT ss "fst a1" "snd a1" "fst a2" "snd a2"] by simp
  moreover have "same_entry_locals (fst a2) (fst a3)"
    using s3 step3_keeps [of c E NT ss "fst a2" "snd a2" "fst a3" "snd a3"] by simp
  moreover have "same_entry_locals (fst a3) (fst a4)"
    using s4 step4_keeps [of c E NT ss "fst a3" "snd a3" "fst a4" "snd a4"] by simp
  moreover have "same_entry_locals (fst a4) L"
    using s5 step5_keeps [of c E ss "fst a4" "snd a4" L s1] by simp
  ultimately have "same_entry_locals L0 L"
    by (blast intro: same_entry_locals_trans)
  with search_entry_locals [OF e] show ?thesis
    by (simp add: same_entry_locals_def)
qed

lemma search_to_step8_locals:
  assumes "search_to_step8 c E NT s ss alpha beta depth = Inr (L, s1)"
  shows "sl_depth L = depth \<and> sl_oldAlpha L = alpha \<and> sl_inCheck L = in_check E (world s)"
proof -
  from assms [unfolded search_to_step8_def]
  obtain a6 where a6: "next_step (search_to_step6 c E NT s ss alpha beta depth) (step6 c E NT ss) = Inr a6"
    and s7: "step7 c E NT ss a6 = Inr (L, s1)"
    by (blast dest: next_step_Inr)
  from a6 obtain a5 where a5: "search_to_step6 c E NT s ss alpha beta depth = Inr a5"
    and s6: "step6 c E NT ss a5 = Inr a6"
    by (blast dest: next_step_Inr)
  have "same_entry_locals (fst a5) (fst a6)"
    using s6 step6_keeps [of c E NT ss "fst a5" "snd a5" "fst a6" "snd a6"] by simp
  moreover have "same_entry_locals (fst a6) L"
    using s7 step7_keeps [of c E NT ss "fst a6" "snd a6" L s1] by simp
  ultimately have "same_entry_locals (fst a5) L"
    by (blast intro: same_entry_locals_trans)
  with search_to_step6_locals [of c E NT s ss alpha beta depth "fst a5" "snd a5"] a5
  show ?thesis
    by (simp add: same_entry_locals_def)
qed

lemma search_to_loop_locals:
  assumes "search_to_loop c E NT s ss alpha beta depth = Inr (L, s1)"
  shows "sl_depth L = depth \<and> sl_oldAlpha L = alpha \<and> sl_inCheck L = in_check E (world s)"
proof -
  from assms [unfolded search_to_loop_def]
  obtain a9 where a9: "next_step (next_step (search_to_step8 c E NT s ss alpha beta depth)
                         (step8 c E NT ss)) (step9 c E NT ss) = Inr a9"
    and s10: "step10 c E NT ss a9 = Inr (L, s1)"
    by (blast dest: next_step_Inr)
  from a9 obtain a8 where a8: "next_step (search_to_step8 c E NT s ss alpha beta depth)
                         (step8 c E NT ss) = Inr a8"
    and s9: "step9 c E NT ss a8 = Inr a9"
    by (blast dest: next_step_Inr)
  from a8 obtain a7 where a7: "search_to_step8 c E NT s ss alpha beta depth = Inr a7"
    and s8: "step8 c E NT ss a7 = Inr a8"
    by (blast dest: next_step_Inr)
  have "same_entry_locals (fst a7) (fst a8)"
    using s8 step8_keeps [of c E NT ss "fst a7" "snd a7" "fst a8" "snd a8"] by simp
  moreover have "same_entry_locals (fst a8) (fst a9)"
    using s9 step9_keeps [of c E NT ss "fst a8" "snd a8" "fst a9" "snd a9"] by simp
  moreover have "same_entry_locals (fst a9) L"
    using s10 step10_keeps [of c E NT ss "fst a9" "snd a9" L s1] by simp
  ultimately have "same_entry_locals (fst a7) L"
    by (blast intro: same_entry_locals_trans)
  with search_to_step8_locals [of c E NT s ss alpha beta depth "fst a7" "snd a7"] a7
  show ?thesis
    by (simp add: same_entry_locals_def)
qed

lemma search_by_loop:
  "\<not> SpNode NT \<Longrightarrow>
     search c E NT s ss alpha beta depth =
       (case search_to_loop c E NT s ss alpha beta depth of
          Inl r \<Rightarrow> r
        | Inr (L, s1) \<Rightarrow> search_finish c E NT ss L (move_loop E NT s1 ss L))"
  by (simp add: search_def search_to_loop_def search_from_step9_def next_step_def
        split: sum.splits)


text \<open>
  C4. In \<open>search\<close> at a non-PV node that is not in check, reached at step 6 with
  \<open>depth < 4 * ONE_PLY\<close>, no move from the table, beta below the mate band in absolute
  value, no pawn of the side to move on the 7th rank and
  \<open>refinedValue + razor_margin depth < beta\<close>, where \<open>razor_margin d = 512 + 16 * d\<close>:
  a \<open>qsearch\<close> is run at the node with the window \<open>[rbeta - 1, rbeta]\<close>,
  \<open>rbeta = beta - razor_margin depth\<close>, and depth \<open>DEPTH_ZERO\<close>; when its value is
  below \<open>rbeta\<close>, \<open>search\<close> returns that value itself, not the value plus the margin.
\<close>

theorem search_razoring:
  assumes "search_to_step6 c E NonPV s ss alpha beta depth = Inr (L, s1)"
    and "\<not> in_check E (world s)"
    and "depth < 4 * ONE_PLY c"
    and "sl_ttMove L = MOVE_NONE"
    and "\<bar>sl_beta L\<bar> < VALUE_MATE_IN_PLY_MAX c"
    and "\<not> has_pawn_on_7th E (world s1) (side_to_move E (world s1))"
    and "sl_refinedValue L + razor_margin depth < sl_beta L"
  shows "razor_margin depth = 512 + 16 * depth
         \<and> (let rbeta = sl_beta L - razor_margin depth;
                 r = qsearch c E NonPV s1 ss (rbeta - 1) rbeta (DEPTH_ZERO c)
             in fst r < rbeta \<longrightarrow> search c E NonPV s ss alpha beta depth = r)"
proof -
  from search_to_step6_locals [OF assms(1)]
  have d: "sl_depth L = depth" and ic: "sl_inCheck L = in_check E (world s)"
    by simp_all
  have m: "razor_margin depth = 512 + 16 * depth"
    by (simp add: razor_margin_def)
  have "search c E NonPV s ss alpha beta depth =
          qsearch c E NonPV s1 ss (sl_beta L - razor_margin depth - 1)
            (sl_beta L - razor_margin depth) (DEPTH_ZERO c)"
    if "fst (qsearch c E NonPV s1 ss (sl_beta L - razor_margin depth - 1)
            (sl_beta L - razor_margin depth) (DEPTH_ZERO c)) < sl_beta L - razor_margin depth"
    using that assms(2-7)
    by (simp add: search_def search_to_step8_def assms(1) next_step_def step6_def
          SpNode_def PvNode_def RazorDepth_def d ic Let_def)
  with m show ?thesis
    by (simp add: Let_def)
qed

theorem search_razoring_witness:
  "fst (search sample_params toy_env NonPV (toy_state False 300 []) 1 1999 2000 6) = 300"
proof -
  define a where "a = search_to_step6 sample_params toy_env NonPV (toy_state False 300 []) 1 1999 2000 6"
  have "case a of
          Inl r \<Rightarrow> False
        | Inr (L, s1) \<Rightarrow>
            sl_ttMove L = MOVE_NONE \<and> sl_beta L = 2000 \<and> sl_refinedValue L = 300
            \<and> \<not> has_pawn_on_7th toy_env (world s1) (side_to_move toy_env (world s1))
            \<and> fst (qsearch sample_params toy_env NonPV s1 1 1391 1392 0) = 300"
    unfolding a_def by code_simp
  then obtain L s1 where h: "a = Inr (L, s1)"
    and f: "sl_ttMove L = MOVE_NONE" "sl_beta L = 2000" "sl_refinedValue L = 300"
      "\<not> has_pawn_on_7th toy_env (world s1) (side_to_move toy_env (world s1))"
      "fst (qsearch sample_params toy_env NonPV s1 1 1391 1392 0) = 300"
    by (cases a) auto
  have h2: "\<not> in_check toy_env (world (toy_state False 300 []))"
    by (simp add: toy_env_def toy_state_def)
  have h3: "(6::int) < 4 * ONE_PLY sample_params"
    and h5: "\<bar>sl_beta L\<bar> < VALUE_MATE_IN_PLY_MAX sample_params"
    and h7: "sl_refinedValue L + razor_margin 6 < sl_beta L"
    by (simp_all add: sample_params_def f razor_margin_def)
  from search_razoring [OF h [unfolded a_def] h2 h3 f(1) h5 f(4) h7] f
  show ?thesis
    by (simp add: Let_def razor_margin_def sample_params_def)
qed

text \<open>
  C3. In \<open>search\<close> reached at step 8 with the null move preconditions (non-PV node,
  \<open>skipNullMove\<close> false, \<open>depth > ONE_PLY\<close>, not in check, \<open>refinedValue \<ge> beta\<close>,
  beta below the mate band in absolute value, non-pawn material for the side to move):
  the reduction is \<open>R = 3 + (depth / 8 if depth \<ge> 5 * ONE_PLY else 0)\<close>, one more when
  \<open>refinedValue - PawnValueMidgame > beta\<close>. The child is searched after the null move
  with \<open>skipNullMove\<close> set in its frame, by \<open>qsearch\<close> when
  \<open>depth - R * ONE_PLY < ONE_PLY\<close> and by \<open>search\<close> at that depth otherwise, both with
  the window \<open>[-beta, -alpha]\<close>. When its negated value is at least beta, a value at or
  above \<open>VALUE_MATE_IN_PLY_MAX\<close> is replaced by beta; that value is returned at once
  exactly when \<open>depth < 6 * ONE_PLY\<close>, and at a greater depth it is returned when the
  verification search, at the same node with \<open>skipNullMove\<close> set, the same window and
  depth \<open>depth - R * ONE_PLY\<close>, reaches beta too; when it does not, the function goes on
  with step 9.
\<close>

theorem search_null_move:
  assumes "search_to_step8 c E NonPV s ss alpha beta depth = Inr (L, s1)"
    and "null_move_guard c E NonPV ss L s1"
  shows
    "let R = 3 + (if depth \<ge> 5 * ONE_PLY c then depth sdiv 8 else 0)
               + (if sl_refinedValue L - PawnValueMidgame c > sl_beta L then 1 else 0);
         s3 = upd_ss (upd_world (upd_ss s1 ss (\<lambda>f. f\<lparr> ss_currentMove := MOVE_NULL c \<rparr>))
                        (do_null_move_true E))
                (ss + 1) (\<lambda>f. f\<lparr> ss_skipNullMove := True \<rparr>);
         r = (if depth - R * ONE_PLY c < ONE_PLY c
              then qsearch c E NonPV s3 (ss + 1) (- sl_beta L) (- sl_alpha L) (DEPTH_ZERO c)
              else search_rec E NonPV s3 (ss + 1) (- sl_beta L) (- sl_alpha L) (depth - R * ONE_PLY c));
         nullValue = - fst r;
         capped = (if nullValue \<ge> VALUE_MATE_IN_PLY_MAX c then sl_beta L else nullValue);
         s5 = upd_world (upd_ss (snd r) (ss + 1) (\<lambda>f. f\<lparr> ss_skipNullMove := False \<rparr>))
                (do_null_move_false E);
         s6 = upd_ss s5 ss (\<lambda>f. f\<lparr> ss_skipNullMove := True \<rparr>);
         r2 = search_rec E NonPV s6 ss (sl_alpha L) (sl_beta L) (depth - R * ONE_PLY c);
         s7 = upd_ss (snd r2) ss (\<lambda>f. f\<lparr> ss_skipNullMove := False \<rparr>)
     in null_move_R c L = R
        \<and> ss_skipNullMove (stack s3 (ss + 1))
        \<and> ss_skipNullMove (stack s6 ss)
        \<and> (nullValue \<ge> sl_beta L \<and> depth < 6 * ONE_PLY c \<longrightarrow>
             search c E NonPV s ss alpha beta depth = (capped, s5))
        \<and> (nullValue \<ge> sl_beta L \<and> \<not> depth < 6 * ONE_PLY c \<and> fst r2 \<ge> sl_beta L \<longrightarrow>
             search c E NonPV s ss alpha beta depth = (capped, s7))
        \<and> (nullValue \<ge> sl_beta L \<and> \<not> depth < 6 * ONE_PLY c \<and> \<not> fst r2 \<ge> sl_beta L \<longrightarrow>
             search c E NonPV s ss alpha beta depth = search_from_step9 c E NonPV ss (L, s7))"
proof -
  from search_to_step8_locals [OF assms(1)]
  have d: "sl_depth L = depth" by simp
  have R: "null_move_R c L = 3 + (if depth \<ge> 5 * ONE_PLY c then depth sdiv 8 else 0)
               + (if sl_refinedValue L - PawnValueMidgame c > sl_beta L then 1 else 0)"
    by (simp add: null_move_R_def Let_def d)
  have s: "search c E NonPV s ss alpha beta depth =
             (case step8 c E NonPV ss (L, s1) of
                Inl r \<Rightarrow> r | Inr a \<Rightarrow> search_from_step9 c E NonPV ss a)"
    by (simp add: search_def SpNode_def assms(1) next_step_def)
  show ?thesis
    unfolding s
    using assms(2)
    by (simp add: step8_def Let_def d R [symmetric] upd_state)
qed

theorem search_null_move_witness:
  "fst (search sample_params toy_env NonPV (toy_state False 300 []) 1 99 100 20) = 100"
proof -
  define a where "a = search_to_step8 sample_params toy_env NonPV (toy_state False 300 []) 1 99 100 20"
  have "case a of
          Inl r \<Rightarrow> False
        | Inr (L, s1) \<Rightarrow>
            sl_alpha L = 99 \<and> sl_beta L = 100 \<and> sl_refinedValue L = 300
            \<and> null_move_guard sample_params toy_env NonPV 1 L s1"
    unfolding a_def by code_simp
  then obtain L s1 where h: "a = Inr (L, s1)"
    and f: "sl_alpha L = 99" "sl_beta L = 100" "sl_refinedValue L = 300"
    and g: "null_move_guard sample_params toy_env NonPV 1 L s1"
    by (cases a) auto
  have q: "(20::int) sdiv 8 = 2"
    by (simp add: signed_divide_int_def)
  from search_null_move [OF h [unfolded a_def] g] f
  show ?thesis
    by (simp add: Let_def sample_params_def toy_env_def q)
qed

text \<open>
  C5. A \<open>search\<close> that is not entered at a split point, reaches its move loop and
  leaves it with \<open>moveCount = 0\<close> returns the alpha it was called with when an excluded
  move is set, else \<open>value_mated_in ply\<close> when the side to move is in check, else
  \<open>VALUE_DRAW\<close>; the table is not written.
\<close>

theorem search_no_move_tried:
  assumes "\<not> SpNode NT"
    and "search_to_loop c E NT s ss alpha beta depth = Inr (L, s1)"
    and "lr_moveCount (move_loop E NT s1 ss L) = 0"
  shows "search c E NT s ss alpha beta depth =
           ((if sl_excludedMove L \<noteq> MOVE_NONE then alpha
             else if in_check E (world s)
             then value_mated_in E (ss_ply (stack (lr_state (move_loop E NT s1 ss L)) ss))
             else VALUE_DRAW c),
            lr_state (move_loop E NT s1 ss L))"
proof -
  from search_to_loop_locals [OF assms(2)]
  have "sl_oldAlpha L = alpha" and "sl_inCheck L = in_check E (world s)"
    by simp_all
  then show ?thesis
    using assms
    by (simp add: search_by_loop search_finish_def Let_def)
qed


theorem search_no_move_tried_witness:
  "fst (search sample_params toy_env NonPV (toy_state True 300 []) 1 1999 2000 6) = - 29999
   \<and> fst (search sample_params toy_env NonPV (toy_state False 300 []) 1 1999 2000 20) = 0
   \<and> fst (search sample_params toy_env NonPV
            (upd_ss (toy_state False 300 []) 1 (\<lambda>f. f\<lparr> ss_excludedMove := 7 \<rparr>)) 1 1999 2000 20)
       = 1999"
proof -
  define a where "a = search_to_loop sample_params toy_env NonPV (toy_state True 300 []) 1 1999 2000 6"
  define b where "b = search_to_loop sample_params toy_env NonPV (toy_state False 300 []) 1 1999 2000 20"
  define d where "d = search_to_loop sample_params toy_env NonPV
                        (upd_ss (toy_state False 300 []) 1 (\<lambda>f. f\<lparr> ss_excludedMove := 7 \<rparr>))
                        1 1999 2000 20"
  have "case a of
          Inl r \<Rightarrow> False
        | Inr (L, s1) \<Rightarrow> sl_excludedMove L = MOVE_NONE \<and> ss_ply (stack s1 1) = 1"
    unfolding a_def by code_simp
  then obtain La sa where ha: "a = Inr (La, sa)"
    and fa: "sl_excludedMove La = MOVE_NONE" "ss_ply (stack sa 1) = 1"
    by (cases a) auto
  have "case b of Inl r \<Rightarrow> False | Inr (L, s1) \<Rightarrow> sl_excludedMove L = MOVE_NONE"
    unfolding b_def by code_simp
  then obtain Lb sb where hb: "b = Inr (Lb, sb)" and fb: "sl_excludedMove Lb = MOVE_NONE"
    by (cases b) auto
  have "case d of Inl r \<Rightarrow> False | Inr (L, s1) \<Rightarrow> sl_excludedMove L \<noteq> MOVE_NONE"
    unfolding d_def by code_simp
  then obtain Ld sd where hd: "d = Inr (Ld, sd)" and fd: "sl_excludedMove Ld \<noteq> MOVE_NONE"
    by (cases d) auto
  have n: "\<not> SpNode NonPV"
    by (simp add: SpNode_def)
  have m: "lr_moveCount (move_loop toy_env NonPV s1 1 L) = 0" for s1 L
    by (simp add: toy_env_def)
  from search_no_move_tried [OF n ha [unfolded a_def] m]
       search_no_move_tried [OF n hb [unfolded b_def] m]
       search_no_move_tried [OF n hd [unfolded d_def] m] fa fb fd
  show ?thesis
    by (simp add: toy_env_def toy_state_def sample_params_def upd_ss_def)
qed

end
